theory Spec2Isabelle
  imports Complex_Main "HOL-Library.Sublist" "HOL-Library.AList"
begin

section \<open>Strings\<close>

text \<open>
  Python strings are modelled as \<open>string\<close> (lists of 8-bit characters); the helpers
  below are the ASCII behaviour of \<^verbatim>\<open>str.lower\<close>, \<^verbatim>\<open>str.upper\<close>,
  \<^verbatim>\<open>str.capitalize\<close> and of the substring test \<^verbatim>\<open>a in b\<close>.
\<close>

definition ascii_uppercase :: string where
  "ascii_uppercase = ''ABCDEFGHIJKLMNOPQRSTUVWXYZ''"

definition ascii_lowercase :: string where
  "ascii_lowercase = ''abcdefghijklmnopqrstuvwxyz''"

definition lower_char :: "char \<Rightarrow> char" where
  "lower_char c =
     (case map_of (zip ascii_uppercase ascii_lowercase) c of None \<Rightarrow> c | Some l \<Rightarrow> l)"

definition upper_char :: "char \<Rightarrow> char" where
  "upper_char c =
     (case map_of (zip ascii_lowercase ascii_uppercase) c of None \<Rightarrow> c | Some u \<Rightarrow> u)"

definition py_lower :: "string \<Rightarrow> string" where
  "py_lower s = map lower_char s"

definition py_upper :: "string \<Rightarrow> string" where
  "py_upper s = map upper_char s"

fun py_capitalize :: "string \<Rightarrow> string" where
  "py_capitalize [] = []"
| "py_capitalize (c # cs) = upper_char c # map lower_char cs"

fun py_in :: "string \<Rightarrow> string \<Rightarrow> bool" where
  "py_in sub [] = (sub = [])"
| "py_in sub (c # cs) = (prefix sub (c # cs) \<or> py_in sub cs)"

section \<open>The exchange gateway: \<^verbatim>\<open>safe_api_call\<close> and \<^verbatim>\<open>set_trading_stop\<close>\<close>

text \<open>
  What one invocation of the wrapped HTTP session function does, as
  \<^verbatim>\<open>safe_api_call\<close> (utils.py) distinguishes it: it returns a dict (with the
  values of \<^verbatim>\<open>response.get('retCode')\<close> and of the key \<^verbatim>\<open>retMsg\<close>, \<open>None\<close> when
  the key is absent), it returns \<^verbatim>\<open>None\<close> or some other non-dict value, or it raises.
\<close>

datatype raw_outcome =
    RawDict "int option" "string option"
  | RawNone
  | RawNonDict
  | RawHTTPStatusError int string
  | RawRequestError
  | RawException string

text \<open>The error dict \<^verbatim>\<open>{'code': ..., 'msg': ...}\<close> built by \<^verbatim>\<open>safe_api_call\<close>.\<close>

record api_error =
  code :: "int option"
  msg :: string

text \<open>The first component of the pair returned by \<^verbatim>\<open>safe_api_call\<close>.\<close>

datatype api_response = RespDict "int option" "string option" | RespNone | RespNonDict

datatype attempt_result = Returned api_response "api_error option" | Reraised

text \<open>
  The body of \<^verbatim>\<open>safe_api_call\<close>: a dict with \<^verbatim>\<open>retCode == 0\<close> is a success, any
  other dict is an error carrying the code and the message (default
  \<^verbatim>\<open>'Unknown error'\<close>); a non-dict response is passed through as a success; an HTTP
  status error becomes an error dict; a request error is re-raised; any other exception
  becomes the error code \<open>-1\<close>.
\<close>

fun safe_api_call_body :: "raw_outcome \<Rightarrow> attempt_result" where
  "safe_api_call_body (RawDict ret_code ret_msg) =
     (if ret_code = Some 0 then Returned (RespDict ret_code ret_msg) None
      else Returned RespNone
             (Some \<lparr>code = ret_code,
                    msg = (case ret_msg of None \<Rightarrow> ''Unknown error'' | Some m \<Rightarrow> m)\<rparr>))"
| "safe_api_call_body RawNone = Returned RespNone None"
| "safe_api_call_body RawNonDict = Returned RespNonDict None"
| "safe_api_call_body (RawHTTPStatusError status body) =
     Returned RespNone (Some \<lparr>code = Some status, msg = body\<rparr>)"
| "safe_api_call_body RawRequestError = Reraised"
| "safe_api_call_body (RawException e) = Returned RespNone (Some \<lparr>code = Some (- 1), msg = e\<rparr>)"

text \<open>
  \<^verbatim>\<open>@retry(stop=stop_after_attempt(3), ...)\<close>: the body is run again while it raises,
  three times at most; \<open>answer i\<close> is what the session function does at the \<open>i\<close>-th
  run. \<open>None\<close> is the \<^verbatim>\<open>RetryError\<close> that tenacity raises into the caller when the
  third run has raised too.
\<close>

fun retry_attempts :: "nat \<Rightarrow> nat \<Rightarrow> (nat \<Rightarrow> raw_outcome) \<Rightarrow> (api_response \<times> api_error option) option" where
  "retry_attempts 0 i answer = None"
| "retry_attempts (Suc n) i answer =
     (case safe_api_call_body (answer i) of
        Returned r e \<Rightarrow> Some (r, e)
      | Reraised \<Rightarrow> retry_attempts n (Suc i) answer)"

definition safe_api_call :: "(nat \<Rightarrow> raw_outcome) \<Rightarrow> (api_response \<times> api_error option) option" where
  "safe_api_call answer = retry_attempts 3 0 answer"

text \<open>Python's \<^verbatim>\<open>str(x)\<close> and truth value for an optional string argument.\<close>

definition py_str_opt :: "string option \<Rightarrow> string" where
  "py_str_opt x = (case x of None \<Rightarrow> ''None'' | Some s \<Rightarrow> s)"

definition truthy_str :: "string option \<Rightarrow> bool" where
  "truthy_str x = (case x of None \<Rightarrow> False | Some s \<Rightarrow> s \<noteq> [])"

text \<open>
  The test of \<^verbatim>\<open>set_trading_stop\<close> (bybit_trader.py) on the error dict: Bybit's code
  110043, or a message that contains one of the two phrases, case-insensitively.
\<close>

definition not_modified_error :: "api_error \<Rightarrow> bool" where
  "not_modified_error e =
     (let err_msg_lower = py_lower (msg e); err_code = code e
      in err_code = Some 110043 \<or> py_in ''tpsl identical modify'' err_msg_lower
         \<or> py_in ''not modified'' err_msg_lower)"

text \<open>
  \<^verbatim>\<open>BybitTrader.set_trading_stop\<close>, for the string arguments the engine passes. The
  request parameters do not influence the result, which is decided by the guard on the
  arguments and by the gateway's answer. Every exception inside the \<^verbatim>\<open>try\<close> (the
  \<^verbatim>\<open>RetryError\<close>, or \<^verbatim>\<open>.get\<close> on a response that is not a dict) gives \<open>False\<close>.
\<close>

definition set_trading_stop :: "(nat \<Rightarrow> raw_outcome) \<Rightarrow> string option \<Rightarrow> string option \<Rightarrow> bool" where
  "set_trading_stop answer take_profit stop_loss =
     (if \<not> truthy_str take_profit \<and> \<not> truthy_str stop_loss
         \<and> py_str_opt take_profit \<noteq> ''0'' \<and> py_str_opt stop_loss \<noteq> ''0''
      then False
      else
        (case safe_api_call answer of
           None \<Rightarrow> False
         | Some (response_data, error) \<Rightarrow>
             (case error of
                Some err \<Rightarrow> not_modified_error err
              | None \<Rightarrow>
                  (case response_data of
                     RespDict ret_code ret_msg \<Rightarrow> (ret_code = Some 0 \<or> ret_code = Some 110043)
                   | RespNone \<Rightarrow> False
                   | RespNonDict \<Rightarrow> False))))"

section \<open>Python's \<^verbatim>\<open>int\<close> and \<^verbatim>\<open>Decimal\<close> as the code reads and prints them\<close>

text \<open>
  The engine exchanges numbers with the gateway and with its state files as strings, so
  the constructors \<^verbatim>\<open>Decimal(str)\<close>, \<^verbatim>\<open>int(str)\<close> and the printer
  \<^verbatim>\<open>str(Decimal)\<close> of the Python library are part of the model. Digits are the
  ASCII digits.
\<close>

definition digit_chars :: string where
  "digit_chars = ''0123456789''"

definition is_digit :: "char \<Rightarrow> bool" where
  "is_digit c = (c \<in> set digit_chars)"

definition digit_of_char :: "char \<Rightarrow> nat" where
  "digit_of_char c =
     (case map_of (zip digit_chars [0, 1, 2, 3, 4, 5, 6, 7, 8, 9]) c of None \<Rightarrow> 0 | Some d \<Rightarrow> d)"

definition char_of_digit :: "nat \<Rightarrow> char" where
  "char_of_digit d = digit_chars ! d"

text \<open>\<^verbatim>\<open>str(n)\<close> for a natural number: its decimal digits, most significant first.\<close>

fun show_nat :: "nat \<Rightarrow> string" where
  "show_nat n =
     (if n < 10 then [char_of_digit n] else show_nat (n div 10) @ [char_of_digit (n mod 10)])"

declare show_nat.simps [simp del]

definition nat_of_digits :: "string \<Rightarrow> nat" where
  "nat_of_digits s = foldl (\<lambda>a c. 10 * a + digit_of_char c) 0 s"

text \<open>\<^verbatim>\<open>str(i)\<close> for an integer, and \<^verbatim>\<open>"%+d" % i\<close>.\<close>

definition show_int :: "int \<Rightarrow> string" where
  "show_int i = (if i < 0 then ''-'' else '''') @ show_nat (nat \<bar>i\<bar>)"

definition format_plus_d :: "int \<Rightarrow> string" where
  "format_plus_d n = (if n < 0 then ''-'' else ''+'') @ show_nat (nat \<bar>n\<bar>)"

text \<open>\<^verbatim>\<open>str.strip()\<close>: the ASCII whitespace characters are removed at both ends.\<close>

definition whitespace_chars :: string where
  "whitespace_chars = [CHR '' '', CHR 0x09, CHR 0x0A, CHR 0x0B, CHR 0x0C, CHR 0x0D,
                       CHR 0x1C, CHR 0x1D, CHR 0x1E, CHR 0x1F]"

definition is_space :: "char \<Rightarrow> bool" where
  "is_space c = (c \<in> set whitespace_chars)"

definition py_strip :: "string \<Rightarrow> string" where
  "py_strip s = rev (dropWhile is_space (rev (dropWhile is_space s)))"

definition split_sign :: "string \<Rightarrow> bool \<times> string" where
  "split_sign s =
     (case s of
        [] \<Rightarrow> (False, [])
      | c # r \<Rightarrow> if c = CHR ''-'' then (True, r) else if c = CHR ''+'' then (False, r) else (False, s))"

text \<open>
  \<^verbatim>\<open>int(s)\<close> for a string: surrounding whitespace, an optional sign, and digits in
  groups separated by single underscores. \<open>None\<close> is the \<^verbatim>\<open>ValueError\<close>.
\<close>

fun digit_groups :: "bool \<Rightarrow> string \<Rightarrow> bool" where
  "digit_groups after_digit [] = after_digit"
| "digit_groups after_digit (c # cs) =
     (if is_digit c then digit_groups True cs
      else if c = CHR ''_'' \<and> after_digit then digit_groups False cs
      else False)"

definition py_int :: "string \<Rightarrow> int option" where
  "py_int s =
     (case split_sign (py_strip s) of
        (neg, body) \<Rightarrow>
          if digit_groups False body
          then Some ((if neg then - 1 else 1) * int (nat_of_digits (filter (\<lambda>c. c \<noteq> CHR ''_'') body)))
          else None)"

text \<open>
  A finite \<^verbatim>\<open>Decimal\<close> is a sign, a coefficient and an exponent, as the library keeps
  it; its numeric value is \<open>dval\<close>. Python compares Decimals by value (so
  \<^verbatim>\<open>Decimal('1.0') == Decimal('1.00')\<close>), which is \<open>dval a = dval b\<close> here; its truth
  value is \<open>dval d \<noteq> 0\<close>. The special values (infinities and NaNs) are not modelled: a
  string that denotes one is rejected by \<open>py_Decimal\<close> below.
\<close>

datatype decimal = Decimal (dsign: bool) (dcoeff: nat) (dexp: int)

definition pow10 :: "int \<Rightarrow> rat" where
  "pow10 e = (if 0 \<le> e then 10 ^ nat e else 1 / 10 ^ nat (- e))"

definition dval :: "decimal \<Rightarrow> rat" where
  "dval d = (if dsign d then - 1 else 1) * of_nat (dcoeff d) * pow10 (dexp d)"

text \<open>
  \<^verbatim>\<open>Decimal(value)\<close> for a string: the value is stripped, underscores are removed, and
  the rest must be an optional sign, digits with an optional fractional part (at least
  one digit in all) and an optional exponent \<^verbatim>\<open>E[+-]digits\<close> in either letter
  case. The coefficient is the integer and fractional digits read together, the exponent
  is lowered by the number of fractional digits. \<open>None\<close> is \<^verbatim>\<open>InvalidOperation\<close>.
\<close>

definition parse_exponent :: "string \<Rightarrow> int option" where
  "parse_exponent s =
     (case s of
        [] \<Rightarrow> Some 0
      | c # r \<Rightarrow>
          if c = CHR ''E'' \<or> c = CHR ''e'' then
            (case split_sign r of
               (neg, ds) \<Rightarrow>
                 if ds \<noteq> [] \<and> list_all is_digit ds
                 then Some ((if neg then - 1 else 1) * int (nat_of_digits ds))
                 else None)
          else None)"

definition split_fraction :: "string \<Rightarrow> string \<times> string" where
  "split_fraction s =
     (case s of
        [] \<Rightarrow> ([], [])
      | c # r \<Rightarrow> if c = CHR ''.'' then (takeWhile is_digit r, dropWhile is_digit r) else ([], s))"

definition py_Decimal :: "string \<Rightarrow> decimal option" where
  "py_Decimal v =
     (case split_sign (filter (\<lambda>c. c \<noteq> CHR ''_'') (py_strip v)) of
        (sign, s1) \<Rightarrow>
          (let intpart = takeWhile is_digit s1 in
           case split_fraction (dropWhile is_digit s1) of
             (fracpart, s3) \<Rightarrow>
               if intpart = [] \<and> fracpart = [] then None
               else
                 (case parse_exponent s3 of
                    None \<Rightarrow> None
                  | Some e \<Rightarrow>
                      Some (Decimal sign (nat_of_digits (intpart @ fracpart))
                              (e - int (length fracpart))))))"

text \<open>
  \<^verbatim>\<open>str(d)\<close> for a Decimal (the library's \<^verbatim>\<open>__str__\<close>): plain notation when the
  exponent is not positive and the number has more than \<open>-6\<close> digits left of the point,
  scientific notation with one digit before the point otherwise.
\<close>

definition py_str_decimal :: "decimal \<Rightarrow> string" where
  "py_str_decimal d =
     (let sign = (if dsign d then ''-'' else '''');
          int_digits = show_nat (dcoeff d);
          leftdigits = dexp d + int (length int_digits);
          dotplace = (if dexp d \<le> 0 \<and> leftdigits > - 6 then leftdigits else 1);
          intpart =
            (if dotplace \<le> 0 then ''0''
             else if dotplace \<ge> int (length int_digits)
               then int_digits @ replicate (nat (dotplace - int (length int_digits))) (CHR ''0'')
             else take (nat dotplace) int_digits);
          fracpart =
            (if dotplace \<le> 0 then ''.'' @ replicate (nat (- dotplace)) (CHR ''0'') @ int_digits
             else if dotplace \<ge> int (length int_digits) then ''''
             else ''.'' @ drop (nat dotplace) int_digits);
          exp = (if leftdigits = dotplace then '''' else ''E'' @ format_plus_d (leftdigits - dotplace))
      in sign @ intpart @ fracpart @ exp)"

text \<open>
  \<^verbatim>\<open>float(s) > 0\<close> and \<^verbatim>\<open>float(s) == 0\<close> are decided on the exact value of the
  numeral \<open>s\<close>, which has the sign of the float it is rounded to; \<open>None\<close> is the
  \<^verbatim>\<open>ValueError\<close> of \<^verbatim>\<open>float\<close>.
\<close>

definition py_float :: "string \<Rightarrow> rat option" where
  "py_float s = map_option dval (py_Decimal s)"

text \<open>The characters that \<open>py_str_decimal\<close> and \<open>show_int\<close> produce.\<close>

definition dec_char :: "char \<Rightarrow> bool" where
  "dec_char c = (is_digit c \<or> c = CHR ''-'' \<or> c = CHR ''+'' \<or> c = CHR ''.'' \<or> c = CHR ''E'')"

section \<open>Timestamps\<close>

text \<open>
  A \<^verbatim>\<open>datetime\<close>: the calendar fields and, for an aware value, the UTC offset in
  seconds. The engine's own timestamps come from \<^verbatim>\<open>datetime.utcnow()\<close> and are
  naive (no offset).
\<close>

record datetime =
  dt_year :: nat
  dt_month :: nat
  dt_day :: nat
  dt_hour :: nat
  dt_minute :: nat
  dt_second :: nat
  dt_microsecond :: nat
  dt_utcoffset :: "int option"

definition is_leap :: "nat \<Rightarrow> bool" where
  "is_leap y = (y mod 4 = 0 \<and> (y mod 100 \<noteq> 0 \<or> y mod 400 = 0))"

definition days_in_month :: "nat \<Rightarrow> nat \<Rightarrow> nat" where
  "days_in_month y m =
     (if m = 2 then (if is_leap y then 29 else 28)
      else if m = 4 \<or> m = 6 \<or> m = 9 \<or> m = 11 then 30 else 31)"

text \<open>The values that the \<^verbatim>\<open>datetime\<close> constructor accepts.\<close>

definition valid_datetime :: "datetime \<Rightarrow> bool" where
  "valid_datetime t =
     (1 \<le> dt_year t \<and> dt_year t \<le> 9999 \<and> 1 \<le> dt_month t \<and> dt_month t \<le> 12
      \<and> 1 \<le> dt_day t \<and> dt_day t \<le> days_in_month (dt_year t) (dt_month t)
      \<and> dt_hour t < 24 \<and> dt_minute t < 60 \<and> dt_second t < 60 \<and> dt_microsecond t < 1000000
      \<and> (case dt_utcoffset t of None \<Rightarrow> True | Some off \<Rightarrow> - 86400 < off \<and> off < 86400))"

text \<open>\<^verbatim>\<open>"%0wd" % n\<close>: at least \<open>w\<close> digits, padded with zeros.\<close>

definition pad_nat :: "nat \<Rightarrow> nat \<Rightarrow> string" where
  "pad_nat w n = replicate (w - length (show_nat n)) (CHR ''0'') @ show_nat n"

definition format_date :: "datetime \<Rightarrow> string" where
  "format_date t = pad_nat 4 (dt_year t) @ ''-'' @ pad_nat 2 (dt_month t) @ ''-'' @ pad_nat 2 (dt_day t)"

definition format_hms :: "nat \<Rightarrow> nat \<Rightarrow> nat \<Rightarrow> string" where
  "format_hms h m s = pad_nat 2 h @ '':'' @ pad_nat 2 m @ '':'' @ pad_nat 2 s"

definition format_utcoffset :: "int option \<Rightarrow> string" where
  "format_utcoffset off =
     (case off of
        None \<Rightarrow> ''''
      | Some ofs \<Rightarrow>
          (let a = nat \<bar>ofs\<bar>; hh = a div 3600; mm = (a mod 3600) div 60; ss = a mod 60
           in (if ofs < 0 then ''-'' else ''+'') @ pad_nat 2 hh @ '':'' @ pad_nat 2 mm
              @ (if ss \<noteq> 0 then '':'' @ pad_nat 2 ss else '''')))"

text \<open>\<^verbatim>\<open>datetime.isoformat()\<close>: the microseconds are printed only when they are not zero.\<close>

definition isoformat :: "datetime \<Rightarrow> string" where
  "isoformat t =
     format_date t @ ''T'' @ format_hms (dt_hour t) (dt_minute t) (dt_second t)
     @ (if dt_microsecond t \<noteq> 0 then ''.'' @ pad_nat 6 (dt_microsecond t) else '''')
     @ format_utcoffset (dt_utcoffset t)"

text \<open>\<^verbatim>\<open>strftime("%Y-%m-%d %H:%M:%S")\<close>.\<close>

definition strftime_ymd_hms :: "datetime \<Rightarrow> string" where
  "strftime_ymd_hms t = format_date t @ '' '' @ format_hms (dt_hour t) (dt_minute t) (dt_second t)"

text \<open>
  \<^verbatim>\<open>datetime.fromisoformat\<close> as Python 3.7 to 3.10 define it, on the strings it
  documents: \<^verbatim>\<open>YYYY-MM-DD\<close>, optionally followed by one separator character and
  \<^verbatim>\<open>HH[:MM[:SS[.fff[fff]]]]\<close>, optionally followed by an offset
  \<^verbatim>\<open>+HH:MM[:SS]\<close> or \<^verbatim>\<open>-HH:MM[:SS]\<close>. \<open>None\<close> is the \<^verbatim>\<open>ValueError\<close>.
\<close>

definition digits_n :: "nat \<Rightarrow> string \<Rightarrow> nat option" where
  "digits_n n s = (if length s = n \<and> list_all is_digit s then Some (nat_of_digits s) else None)"

definition parse_fraction :: "string \<Rightarrow> nat option" where
  "parse_fraction s =
     (if s = [] then Some 0
      else if hd s = CHR ''.'' \<and> length s = 4 then map_option (\<lambda>n. n * 1000) (digits_n 3 (tl s))
      else if hd s = CHR ''.'' \<and> length s = 7 then digits_n 6 (tl s)
      else None)"

definition parse_hh_mm_ss_ff :: "string \<Rightarrow> (nat \<times> nat \<times> nat \<times> nat) option" where
  "parse_hh_mm_ss_ff s =
     (case digits_n 2 (take 2 s) of
        None \<Rightarrow> None
      | Some h \<Rightarrow>
          if length s = 2 then Some (h, 0, 0, 0)
          else if s ! 2 \<noteq> CHR '':'' then None
          else
            (case digits_n 2 (take 2 (drop 3 s)) of
               None \<Rightarrow> None
             | Some m \<Rightarrow>
                 if length s = 5 then Some (h, m, 0, 0)
                 else if s ! 5 \<noteq> CHR '':'' then None
                 else
                   (case digits_n 2 (take 2 (drop 6 s)) of
                      None \<Rightarrow> None
                    | Some sec \<Rightarrow>
                        (case parse_fraction (drop 8 s) of
                           None \<Rightarrow> None
                         | Some us \<Rightarrow> Some (h, m, sec, us)))))"

definition parse_utcoffset :: "string \<Rightarrow> int option option" where
  "parse_utcoffset s =
     (if s = [] then Some None
      else if length s = 6 \<or> length s = 9 then
        (case parse_hh_mm_ss_ff (tl s) of
           None \<Rightarrow> None
         | Some (h, m, sec, us) \<Rightarrow>
             Some (Some ((if hd s = CHR ''-'' then - 1 else 1) * int (h * 3600 + m * 60 + sec))))
      else None)"

definition is_tz_sign :: "char \<Rightarrow> bool" where
  "is_tz_sign c = (c = CHR ''+'' \<or> c = CHR ''-'')"

definition fromisoformat :: "string \<Rightarrow> datetime option" where
  "fromisoformat s =
     (if length s < 10 \<or> s ! 4 \<noteq> CHR ''-'' \<or> s ! 7 \<noteq> CHR ''-'' then None
      else
        (case (digits_n 4 (take 4 s), digits_n 2 (take 2 (drop 5 s)), digits_n 2 (take 2 (drop 8 s))) of
           (Some y, Some mo, Some d) \<Rightarrow>
             (let tstr = drop 11 s;
                  timestr = takeWhile (\<lambda>c. \<not> is_tz_sign c) tstr;
                  tzstr = dropWhile (\<lambda>c. \<not> is_tz_sign c) tstr
              in
                (case (if length s = 10 then Some (0, 0, 0, 0) else parse_hh_mm_ss_ff timestr,
                       parse_utcoffset tzstr) of
                   (Some (h, mi, sec, us), Some off) \<Rightarrow>
                     (let t = \<lparr>dt_year = y, dt_month = mo, dt_day = d, dt_hour = h, dt_minute = mi,
                                dt_second = sec, dt_microsecond = us, dt_utcoffset = off\<rparr>
                      in if valid_datetime t then Some t else None)
                 | _ \<Rightarrow> None))
         | _ \<Rightarrow> None))"

section \<open>The trade history and the position store\<close>

text \<open>
  One entry of \<^verbatim>\<open>self.trade_history\<close>, the dict built by
  \<^verbatim>\<open>_add_trade_to_history\<close>; all values are strings, \<^verbatim>\<open>pnl\<close> may be \<^verbatim>\<open>None\<close>.
\<close>

record trade_event =
  h_time :: string
  h_symbol :: string
  h_type :: string
  h_amount :: string
  h_price :: string
  h_order_id :: string
  h_status :: string
  h_pnl :: "string option"
  h_notes :: string

definition or_default :: "string option \<Rightarrow> string \<Rightarrow> string" where
  "or_default x d = (if truthy_str x then the x else d)"

definition make_trade_event ::
  "datetime \<Rightarrow> string \<Rightarrow> string \<Rightarrow> string \<Rightarrow> string \<Rightarrow> string option \<Rightarrow> string option \<Rightarrow> string
    \<Rightarrow> string option \<Rightarrow> string option \<Rightarrow> trade_event" where
  "make_trade_event now_thailand symbol order_type side qty price order_id status pnl notes =
     \<lparr>h_time = strftime_ymd_hms now_thailand,
      h_symbol = symbol,
      h_type = py_capitalize side @ '' '' @ py_capitalize order_type,
      h_amount = qty,
      h_price = or_default price ''Market'',
      h_order_id = or_default order_id ''N/A'',
      h_status = status,
      h_pnl = pnl,
      h_notes = or_default notes ''''\<rparr>"

text \<open>
  The value of one key of \<^verbatim>\<open>self.active_positions_details\<close>, with the fields of the
  dicts built by \<^verbatim>\<open>execute_trade_from_signal\<close> and \<^verbatim>\<open>update_initial_trading_data\<close>.
\<close>

record tracked_position =
  symbol :: string
  position_idx :: int
  side :: string
  entry_price :: "decimal option"
  signal_entry_price :: "decimal option"
  intended_sl :: "decimal option"
  intended_tp1 :: "decimal option"
  tp1_price :: "decimal option"
  breakeven_applied :: bool
  main_order_id :: "string option"
  main_order_status :: "string option"
  tp_order_ids :: "string list"
  last_update_time :: datetime
  last_known_size :: "decimal option"

type_synonym pos_key = "string \<times> int"

text \<open>
  The store is a Python dict: an association list with distinct keys in insertion order.
  \<open>map_of\<close> is the lookup, \<open>AList.update\<close> the assignment (in place for an existing
  key, at the end for a new one), \<open>AList.delete\<close> is \<^verbatim>\<open>pop\<close> and \<^verbatim>\<open>del\<close>.
\<close>

type_synonym store = "(pos_key \<times> tracked_position) list"

text \<open>
  What the engine does to the outside, in the order in which it does it: the two state
  files, the notification channel, waiting, and the calls of the gateway that change the
  exchange.
\<close>

datatype effect =
    SavePositions
  | SaveHistory
  | SendMessage
  | Sleep rat
  | SetTradingStop string string
  | ClosePosition "string option" rat int
  | SetLeverage string
  | PlaceOrder string string string

record bot =
  running :: bool
  bybit_connected :: bool
  current_available_balance :: rat
  active_positions_details :: store
  trade_history :: "trade_event list"
  effects :: "effect list"

definition emit :: "effect \<Rightarrow> bot \<Rightarrow> bot" where
  "emit e b = b\<lparr>effects := effects b @ [e]\<rparr>"

text \<open>
  \<^verbatim>\<open>_save_active_positions_to_disk\<close> and \<^verbatim>\<open>_save_trade_history_to_disk\<close> as steps of
  the engine; what they write is \<open>save_active_positions\<close> and \<open>save_trade_history\<close>
  below.
\<close>

definition save_positions_step :: "bot \<Rightarrow> bot" where
  "save_positions_step b = emit SavePositions b"

text \<open>
  \<^verbatim>\<open>_add_trade_to_history\<close>: the entry is appended and the history is saved. \<open>now\<close> is
  the clock reading, in the time zone of the log.
\<close>

definition add_trade_to_history ::
  "datetime \<Rightarrow> string \<Rightarrow> string \<Rightarrow> string \<Rightarrow> string \<Rightarrow> string option \<Rightarrow> string option \<Rightarrow> string
    \<Rightarrow> string option \<Rightarrow> string option \<Rightarrow> bot \<Rightarrow> bot" where
  "add_trade_to_history now smb order_type sd qty price order_id status pnl notes b =
     emit SaveHistory
       (b\<lparr>trade_history := trade_history b
            @ [make_trade_event now smb order_type sd qty price order_id status pnl notes]\<rparr>)"

text \<open>The truth value of an optional Decimal, and \<^verbatim>\<open>==\<close> between two of them.\<close>

definition truthy_dec :: "decimal option \<Rightarrow> bool" where
  "truthy_dec x = (case x of None \<Rightarrow> False | Some d \<Rightarrow> dval d \<noteq> 0)"

definition eq_dec_opt :: "decimal option \<Rightarrow> decimal option \<Rightarrow> bool" where
  "eq_dec_opt x y =
     (case (x, y) of
        (None, None) \<Rightarrow> True
      | (Some a, Some b) \<Rightarrow> dval a = dval b
      | _ \<Rightarrow> False)"

text \<open>\<^verbatim>\<open>str(x)\<close> for an optional Decimal.\<close>

definition str_dec_opt :: "decimal option \<Rightarrow> string" where
  "str_dec_opt x = (case x of None \<Rightarrow> ''None'' | Some d \<Rightarrow> py_str_decimal d)"

text \<open>
  One position as the gateway's \<^verbatim>\<open>get_open_positions\<close> reports it: a dict of the
  exchange, whose values are read with \<^verbatim>\<open>.get\<close>; \<open>None\<close> is an absent key.
\<close>

record api_position =
  p_symbol :: "string option"
  p_positionIdx :: "int option"
  p_side :: "string option"
  p_size :: "string option"
  p_avgPrice :: "string option"
  p_stopLoss :: "string option"
  p_takeProfit :: "string option"

text \<open>
  \<^verbatim>\<open>Decimal(s) if s and s != "0" else None\<close>, the way the engine reads a price of the
  exchange: the outer \<open>None\<close> is the exception of a string that is not a number.
\<close>

definition live_price :: "string option \<Rightarrow> decimal option option" where
  "live_price s =
     (if truthy_str s \<and> s \<noteq> Some ''0''
      then (case py_Decimal (the s) of None \<Rightarrow> None | Some d \<Rightarrow> Some (Some d))
      else Some None)"

text \<open>
  \<^verbatim>\<open>_handle_closed_position\<close>: the key is popped; without an entry under it only the
  store is saved; otherwise the store is saved, one history entry "Position Closed (...)"
  is written and a notification is sent; a key that is in the store again after the
  notification is deleted once more. No gateway call and no wait lies between the pop
  and the history entry. The callers pass the tracked dict as
  \<^verbatim>\<open>closed_position_data\<close>; it has no key \<^verbatim>\<open>size\<close>, so the quantity of the entry
  is the last known size in either case.
\<close>

definition handle_closed_position ::
  "datetime \<Rightarrow> pos_key \<Rightarrow> tracked_position option \<Rightarrow> string option \<Rightarrow> bot \<Rightarrow> bot" where
  "handle_closed_position now pos_key closed_position_data reason_override b =
     (case map_of (active_positions_details b) pos_key of
        None \<Rightarrow> save_positions_step b
      | Some tracked_info \<Rightarrow>
          (let b1 = save_positions_step
                      (b\<lparr>active_positions_details := AList.delete pos_key (active_positions_details b)\<rparr>);
               reason_note = or_default reason_override ''Position Closed (Reason Undetermined)'';
               qty_closed = (case closed_position_data of
                               Some data \<Rightarrow> last_known_size tracked_info
                             | None \<Rightarrow> last_known_size tracked_info);
               b2 = add_trade_to_history now (fst pos_key) ''System Close'' (side tracked_info)
                      (str_dec_opt qty_closed) (Some ''N/A'') None
                      (''Position Closed ('' @ reason_note @ '')'')
                      (Some ''N/A'') (Some (''PosIdx '' @ show_int (snd pos_key))) b1;
               b3 = emit SendMessage b2
           in if map_of (active_positions_details b3) pos_key \<noteq> None
              then save_positions_step
                     (b3\<lparr>active_positions_details := AList.delete pos_key (active_positions_details b3)\<rparr>)
              else b3))"

section \<open>Instrument details, rounding and position sizing\<close>

text \<open>
  One value of \<^verbatim>\<open>self.instrument_info\<close>: the three strings kept per symbol, each
  possibly \<^verbatim>\<open>None\<close>.
\<close>

record instrument =
  minOrderQty :: "string option"
  qtyStep :: "string option"
  tickSize :: "string option"

text \<open>
  What the engine reads from its configuration and from the Python runtime. The two
  precisions and the fixed size are the values that the configuration lookups with their
  fallbacks deliver for a symbol. \<open>float_format v p\<close> stands for
  \<^verbatim>\<open>f"{float(x):.{p}f}"\<close> at the value \<open>v\<close>, and \<open>str_quantity v\<close> for \<^verbatim>\<open>str\<close> of
  a computed Decimal of value \<open>v\<close>: both are results of the runtime that this model
  takes as given.
\<close>

record env =
  instrument_info :: "string \<rightharpoonup> instrument"
  qty_precision :: "string \<Rightarrow> nat"
  price_precision :: "string \<Rightarrow> nat"
  position_size_mode :: string
  risk_per_trade_percentage :: rat
  max_position_size :: "string \<Rightarrow> string"
  target_trading_symbol :: string
  default_leverage :: int
  enable_breakeven_on_tp1 :: bool
  enable_breakeven_on_partial_tp :: bool
  float_format :: "rat \<Rightarrow> nat \<Rightarrow> string"
  str_quantity :: "rat \<Rightarrow> string"


definition TPSL_VERIFICATION_RETRIES :: nat where
  "TPSL_VERIFICATION_RETRIES = 3"

definition TPSL_RETRY_DELAY_SECONDS :: rat where
  "TPSL_RETRY_DELAY_SECONDS = 10"

text \<open>
  \<^verbatim>\<open>_get_instrument_detail\<close>: the fallback is used when the symbol has no entry, not
  when the entry holds \<^verbatim>\<open>None\<close>.
\<close>

definition get_instrument_detail ::
  "env \<Rightarrow> string \<Rightarrow> (instrument \<Rightarrow> string option) \<Rightarrow> string option \<Rightarrow> string option" where
  "get_instrument_detail e smb detail fallback =
     (case instrument_info e smb of None \<Rightarrow> fallback | Some ins \<Rightarrow> detail ins)"

text \<open>
  Decimal arithmetic. Where the code only computes with Decimals (division,
  multiplication, subtraction, comparison) the model computes with their values, exactly;
  Python rounds a result to 28 significant digits. \<open>quantize_down v e\<close> is
  \<^verbatim>\<open>x.quantize(q, rounding=ROUND_DOWN)\<close> for an \<open>x\<close> of value \<open>v\<close> and a \<open>q\<close> of
  exponent \<open>e\<close>: the digits below \<open>10^e\<close> are cut off. \<open>dec_mul\<close> is the product of two
  Decimals.
\<close>

definition quantize_down :: "rat \<Rightarrow> int \<Rightarrow> decimal" where
  "quantize_down v e = Decimal (v < 0) (nat \<lfloor>\<bar>v\<bar> / pow10 e\<rfloor>) e"

definition dec_mul :: "decimal \<Rightarrow> decimal \<Rightarrow> decimal" where
  "dec_mul a b = Decimal (dsign a \<noteq> dsign b) (dcoeff a * dcoeff b) (dexp a + dexp b)"

text \<open>
  The common body of \<^verbatim>\<open>_format_quantity\<close> and \<^verbatim>\<open>_format_price\<close>, for a number of
  value \<open>v\<close>: with a step that is a positive number,
  \<^verbatim>\<open>(num / step).quantize(Decimal('1'), ROUND_DOWN) * step\<close>, quantized once more to the
  exponent of the step; without a step (absent or empty), or with a step that is not
  positive, the number cut to the configured precision; with a step string that is not a
  number, the \<^verbatim>\<open>except\<close> branch, which formats the float.
\<close>

definition format_to_step :: "env \<Rightarrow> string option \<Rightarrow> nat \<Rightarrow> rat \<Rightarrow> string" where
  "format_to_step e step_str precision v =
     (if truthy_str step_str then
        (case py_Decimal (the step_str) of
           None \<Rightarrow> float_format e v precision
         | Some step \<Rightarrow>
             if dval step > 0 then
               (let formatted_decimal = dec_mul (quantize_down (v / dval step) 0) step
                in py_str_decimal (quantize_down (dval formatted_decimal) (dexp step)))
             else py_str_decimal (quantize_down v (- int precision)))
      else py_str_decimal (quantize_down v (- int precision)))"


definition format_price :: "env \<Rightarrow> decimal \<Rightarrow> string \<Rightarrow> string" where
  "format_price e price smb =
     format_to_step e (get_instrument_detail e smb tickSize None) (price_precision e smb) (dval price)"









section \<open>Notions used to state the properties\<close>

text \<open>
  The calls that open a position: setting the leverage and placing the entry order.
  Closing an existing position is not one of them.
\<close>

fun is_entry_call :: "effect \<Rightarrow> bool" where
  "is_entry_call (SetLeverage l) = True"
| "is_entry_call (PlaceOrder sd qty ot) = True"
| "is_entry_call _ = False"

definition entry_calls :: "bot \<Rightarrow> effect list" where
  "entry_calls b = filter is_entry_call (effects b)"

text \<open>The set-stops calls among the effects, and the waits.\<close>

fun is_stop_call :: "effect \<Rightarrow> bool" where
  "is_stop_call (SetTradingStop tp sl) = True"
| "is_stop_call _ = False"

definition stop_calls :: "bot \<Rightarrow> effect list" where
  "stop_calls b = filter is_stop_call (effects b)"




section \<open>Concrete inputs\<close>

text \<open>
  A configuration, a clock reading, a running bot with a balance of 1000 and three
  signals for the traded symbol, used to evaluate the model.
\<close>

definition example_env :: env where
  "example_env =
     \<lparr>instrument_info =
        [''BTCUSDT'' \<mapsto> \<lparr>minOrderQty = Some ''0.001'', qtyStep = Some ''0.001'', tickSize = Some ''0.1''\<rparr>],
      qty_precision = (\<lambda>s. 3),
      price_precision = (\<lambda>s. 1),
      position_size_mode = ''risk_percentage'',
      risk_per_trade_percentage = 1,
      max_position_size = (\<lambda>s. ''0.01''),
      target_trading_symbol = ''BTCUSDT'',
      default_leverage = 10,
      enable_breakeven_on_tp1 = True,
      enable_breakeven_on_partial_tp = True,
      float_format = (\<lambda>v p. ''0''),
      str_quantity = (\<lambda>v. ''0'')\<rparr>"

definition example_now :: datetime where
  "example_now =
     \<lparr>dt_year = 2024, dt_month = 5, dt_day = 17, dt_hour = 9, dt_minute = 30, dt_second = 5,
      dt_microsecond = 0, dt_utcoffset = None\<rparr>"

definition example_bot :: bot where
  "example_bot =
     \<lparr>running = True, bybit_connected = True, current_available_balance = 1000,
      active_positions_details = [], trade_history = [], effects = []\<rparr>"






section \<open>The reconciliation loop\<close>

text \<open>
  The model follows one task at a time: the steps of other tasks that the event loop may
  run while a gateway call is awaited are not interleaved. The answers of the gateway are
  arguments of the functions. One clock reading \<open>now\<close> serves a whole step.
\<close>

definition set_details :: "pos_key \<Rightarrow> tracked_position \<Rightarrow> bot \<Rightarrow> bot" where
  "set_details k d b = b\<lparr>active_positions_details := AList.update k d (active_positions_details b)\<rparr>"

text \<open>
  \<^verbatim>\<open>next((p for p in positions if p.get('symbol') == symbol and p.get('positionIdx') == idx), None)\<close>
\<close>

definition find_position :: "string \<Rightarrow> int \<Rightarrow> api_position list \<Rightarrow> api_position option" where
  "find_position smb idx ps = find (\<lambda>p. p_symbol p = Some smb \<and> p_positionIdx p = Some idx) ps"

definition size_str :: "api_position \<Rightarrow> string" where
  "size_str p = (case p_size p of None \<Rightarrow> ''0'' | Some s \<Rightarrow> s)"

text \<open>
  \<^verbatim>\<open>not data or float(data.get('size', '0')) == 0\<close>: the position is absent or has size
  zero; the outer \<open>None\<close> is the exception of a size that is not a number.
\<close>

definition absent_or_zero :: "api_position option \<Rightarrow> bool option" where
  "absent_or_zero data =
     (case data of
        None \<Rightarrow> Some True
      | Some p \<Rightarrow> map_option (\<lambda>v. v = 0) (py_float (size_str p)))"

text \<open>
  \<^verbatim>\<open>Decimal(self._format_price(x, symbol)) if x else None\<close>; the outer \<open>None\<close> is the
  exception.
\<close>

definition formatted_intended :: "env \<Rightarrow> string \<Rightarrow> decimal option \<Rightarrow> decimal option option" where
  "formatted_intended e smb x =
     (if truthy_dec x
      then (case py_Decimal (format_price e (the x) smb) of None \<Rightarrow> None | Some d \<Rightarrow> Some (Some d))
      else Some None)"

text \<open>\<^verbatim>\<open>(formatted == current) or (not formatted and not current)\<close>\<close>

definition stop_matches :: "decimal option \<Rightarrow> decimal option \<Rightarrow> bool" where
  "stop_matches formatted current =
     (eq_dec_opt formatted current \<or> (\<not> truthy_dec formatted \<and> \<not> truthy_dec current))"

text \<open>
  The comparison of \<^verbatim>\<open>_verify_and_set_tpsl_for_position\<close>: the take-profit and the
  stop-loss that the exchange reports, as reported, against the tracked intended values
  rounded to the tick size. \<open>None\<close> is an exception raised while the values are read.
\<close>

definition tpsl_matches :: "env \<Rightarrow> string \<Rightarrow> tracked_position \<Rightarrow> api_position \<Rightarrow> bool option" where
  "tpsl_matches e smb tracked p =
     (case (live_price (p_takeProfit p), live_price (p_stopLoss p),
            formatted_intended e smb (intended_tp1 tracked),
            formatted_intended e smb (intended_sl tracked)) of
        (Some current_tp, Some current_sl, Some formatted_tp, Some formatted_sl) \<Rightarrow>
          Some (stop_matches formatted_tp current_tp \<and> stop_matches formatted_sl current_sl)
      | _ \<Rightarrow> None)"

text \<open>\<^verbatim>\<open>self._format_price(x, symbol) if x else "0"\<close>\<close>

definition stop_to_set :: "env \<Rightarrow> string \<Rightarrow> decimal option \<Rightarrow> string" where
  "stop_to_set e smb x = (if truthy_dec x then format_price e (the x) smb else ''0'')"

text \<open>
  What the gateway answers during one attempt of the verification: the open positions,
  and the answers of the HTTP session to the runs of a set-stops request.
\<close>

record poll =
  positions :: "api_position list"
  stop_answer :: "nat \<Rightarrow> raw_outcome"

datatype attempt_outcome = Return bool bot | NextAttempt bot

text \<open>
  The body of the \<^verbatim>\<open>try\<close> of one attempt, for a tracked position; \<open>None\<close> is an
  exception, which is raised before anything has been changed.
\<close>

definition verify_try :: "env \<Rightarrow> datetime \<Rightarrow> poll \<Rightarrow> string \<Rightarrow> int \<Rightarrow> nat \<Rightarrow> tracked_position \<Rightarrow> bot
    \<Rightarrow> attempt_outcome option" where
  "verify_try e now g smb idx attempt tracked_details b =
     (let target_position_data = find_position smb idx (positions g) in
      case absent_or_zero target_position_data of
        None \<Rightarrow> None
      | Some True \<Rightarrow>
          if main_order_status tracked_details \<in> {Some ''New'', Some ''Submitted'', Some ''PartiallyFilled''}
             \<and> \<not> truthy_dec (entry_price tracked_details)
          then Some (Return True b)
          else if map_of (active_positions_details b) (smb, idx) \<noteq> None
            then Some (Return True (handle_closed_position now (smb, idx) (Some tracked_details) None b))
            else Some (Return True b)
      | Some False \<Rightarrow>
          (case tpsl_matches e smb tracked_details (the target_position_data) of
             None \<Rightarrow> None
           | Some True \<Rightarrow> Some (Return True b)
           | Some False \<Rightarrow>
               (let effective_intended_tp = intended_tp1 tracked_details;
                    effective_intended_sl = intended_sl tracked_details;
                    tp_to_set_str = stop_to_set e smb effective_intended_tp;
                    sl_to_set_str = stop_to_set e smb effective_intended_sl;
                    b1 = emit (SetTradingStop tp_to_set_str sl_to_set_str) b;
                    success = set_trading_stop (stop_answer g) (Some tp_to_set_str) (Some sl_to_set_str)
                in if success then
                     Some (Return True
                       (emit (Sleep 1)
                          (case map_of (active_positions_details b1) (smb, idx) of
                             None \<Rightarrow> b1
                           | Some d \<Rightarrow>
                               save_positions_step
                                 (set_details (smb, idx)
                                    (d\<lparr>intended_tp1 := effective_intended_tp,
                                       intended_sl := effective_intended_sl,
                                       last_update_time := now\<rparr>) b1))))
                   else if attempt < TPSL_VERIFICATION_RETRIES
                     then Some (NextAttempt (emit (Sleep TPSL_RETRY_DELAY_SECONDS) b1))
                   else Some (Return False
                          (add_trade_to_history now smb ''System'' ''Alert'' ''N/A'' None None
                             ''CRITICAL: TP/SL Set Fail'' (Some ''0.00'')
                             (Some (''PosIdx '' @ show_int idx)) b1)))))"

text \<open>One iteration of the loop \<^verbatim>\<open>for attempt in range(TPSL_VERIFICATION_RETRIES + 1)\<close>.\<close>

definition verify_attempt :: "env \<Rightarrow> datetime \<Rightarrow> poll \<Rightarrow> string \<Rightarrow> int \<Rightarrow> nat \<Rightarrow> bot \<Rightarrow> attempt_outcome" where
  "verify_attempt e now g smb idx attempt b =
     (case map_of (active_positions_details b) (smb, idx) of
        None \<Rightarrow> Return True b
      | Some tracked_details \<Rightarrow>
          (case verify_try e now g smb idx attempt tracked_details b of
             Some out \<Rightarrow> out
           | None \<Rightarrow>
               if attempt < TPSL_VERIFICATION_RETRIES
               then NextAttempt (emit (Sleep TPSL_RETRY_DELAY_SECONDS) b)
               else Return False b))"

fun verify_loop :: "nat \<Rightarrow> nat \<Rightarrow> env \<Rightarrow> datetime \<Rightarrow> (nat \<Rightarrow> poll) \<Rightarrow> string \<Rightarrow> int \<Rightarrow> bot \<Rightarrow> bool \<times> bot" where
  "verify_loop 0 attempt e now gw smb idx b = (False, b)"
| "verify_loop (Suc n) attempt e now gw smb idx b =
     (case verify_attempt e now (gw attempt) smb idx attempt b of
        Return r b' \<Rightarrow> (r, b')
      | NextAttempt b' \<Rightarrow> verify_loop n (Suc attempt) e now gw smb idx b')"

text \<open>
  \<^verbatim>\<open>_verify_and_set_tpsl_for_position\<close>; \<open>gw i\<close> is what the gateway answers during
  attempt \<open>i\<close>. The arguments \<^verbatim>\<open>intended_tp\<close> and \<^verbatim>\<open>intended_sl\<close> of the source are
  only logged: the function works with the tracked values.
\<close>

definition verify_and_set_tpsl_for_position ::
  "env \<Rightarrow> datetime \<Rightarrow> (nat \<Rightarrow> poll) \<Rightarrow> string \<Rightarrow> int \<Rightarrow> bot \<Rightarrow> bool \<times> bot" where
  "verify_and_set_tpsl_for_position e now gw smb idx b =
     verify_loop (TPSL_VERIFICATION_RETRIES + 1) 0 e now gw smb idx b"

text \<open>
  What the gateway answers while the periodic task handles one key: the open positions,
  the last price of the ticker (\<open>None\<close> when no price is delivered) and the answers
  during the verification that ends the step.
\<close>

record key_poll =
  kp_positions :: "api_position list"
  kp_last_price :: "string option"
  kp_verify :: "nat \<Rightarrow> poll"

text \<open>\<^verbatim>\<open>a or b\<close> for two optional Decimals.\<close>

definition dec_or :: "decimal option \<Rightarrow> decimal option \<Rightarrow> decimal option" where
  "dec_or x y = (if truthy_dec x then x else y)"

text \<open>
  The break-even trigger on a partial close. \<open>None\<close> is the exception of a size that
  cannot be compared (not a number, or no last known size).
\<close>

definition partial_tp_breakeven ::
  "env \<Rightarrow> datetime \<Rightarrow> pos_key \<Rightarrow> api_position \<Rightarrow> bool \<Rightarrow> decimal option \<Rightarrow> tracked_position \<Rightarrow> bot
    \<Rightarrow> (tracked_position \<times> bot) option" where
  "partial_tp_breakeven e now k p breakeven_already_applied actual_entry_price pos_details b =
     (if enable_breakeven_on_partial_tp e \<and> \<not> breakeven_already_applied \<and> truthy_dec actual_entry_price
      then
        (case (py_Decimal (size_str p), last_known_size pos_details) of
           (Some live_size, Some last_size) \<Rightarrow>
             (let (d1, b1) =
                    (if dval live_size < dval last_size then
                       (let d = pos_details\<lparr>intended_sl := actual_entry_price, breakeven_applied := True\<rparr>;
                            b' = save_positions_step (set_details k d b);
                            b'' = add_trade_to_history now (fst k) ''System'' (py_upper (side pos_details))
                                    (py_str_decimal live_size) (Some (str_dec_opt actual_entry_price))
                                    None ''SL to Break-Even (Partial TP)'' (Some ''0.00'')
                                    (Some (''PosIdx '' @ show_int (snd k) @ '', Partial TP'')) b'
                        in (d, emit SendMessage b''))
                     else (pos_details, b));
                  d2 = d1\<lparr>last_known_size := Some live_size\<rparr>
              in Some (d2, set_details k d2 b1))
         | _ \<Rightarrow> None)
      else Some (pos_details, b))"

text \<open>
  The break-even trigger on the price crossing the first take-profit. Every exception
  inside it is caught and leaves the state as it is.
\<close>

definition tp1_breakeven ::
  "env \<Rightarrow> datetime \<Rightarrow> pos_key \<Rightarrow> api_position \<Rightarrow> string option \<Rightarrow> bool \<Rightarrow> decimal option
    \<Rightarrow> tracked_position \<Rightarrow> bot \<Rightarrow> tracked_position \<times> bot" where
  "tp1_breakeven e now k p last_price breakeven_already_applied actual_entry_price pos_details b =
     (let tp1_target_price_for_be = tp1_price pos_details; pos_side = py_upper (side pos_details) in
      if enable_breakeven_on_tp1 e \<and> \<not> breakeven_already_applied \<and> truthy_dec tp1_target_price_for_be
         \<and> truthy_dec actual_entry_price \<and> dval (the actual_entry_price) > 0
      then
        (case (if truthy_str last_price then py_Decimal (the last_price) else Some (Decimal False 0 0)) of
           None \<Rightarrow> (pos_details, b)
         | Some current_market_price \<Rightarrow>
             (let tp1_hit_condition_met =
                    (dval current_market_price \<noteq> 0
                     \<and> ((pos_side = ''BUY''
                            \<and> dval current_market_price \<ge> dval (the tp1_target_price_for_be))
                          \<or> (pos_side = ''SELL''
                               \<and> dval current_market_price \<le> dval (the tp1_target_price_for_be))))
              in if tp1_hit_condition_met then
                   (case (py_Decimal (format_price e (the actual_entry_price) (fst k)),
                          formatted_intended e (fst k) (intended_sl pos_details)) of
                      (Some formatted_new_sl, Some current_formatted_intended_sl) \<Rightarrow>
                        if \<not> eq_dec_opt current_formatted_intended_sl (Some formatted_new_sl) then
                          (let d = pos_details\<lparr>intended_sl := actual_entry_price, breakeven_applied := True\<rparr>;
                               b' = save_positions_step (set_details k d b)
                           in (d, add_trade_to_history now (fst k) ''System'' pos_side
                                    (case p_size p of None \<Rightarrow> ''N/A'' | Some s \<Rightarrow> s)
                                    (Some (str_dec_opt actual_entry_price)) None ''SL to Break-Even''
                                    (Some ''0.00'') (Some (''PosIdx '' @ show_int (snd k) @ '', TP1 hit'')) b'))
                        else
                          (let d = pos_details\<lparr>breakeven_applied := True\<rparr>
                           in (d, save_positions_step (set_details k d b)))
                    | _ \<Rightarrow> (pos_details, b))
                 else (pos_details, b)))
      else (pos_details, b))"

text \<open>
  The body of the loop over the tracked keys in
  \<^verbatim>\<open>_periodic_verify_and_maintain_tpsl\<close>, for one key. The first component of the
  result tells whether an exception left the body, which ends the pass.
\<close>

definition maintain_position :: "env \<Rightarrow> datetime \<Rightarrow> key_poll \<Rightarrow> pos_key \<Rightarrow> bot \<Rightarrow> bool \<times> bot" where
  "maintain_position e now g k b =
     (case map_of (active_positions_details b) k of
        None \<Rightarrow> (False, b)
      | Some pos_details \<Rightarrow>
          if main_order_status pos_details \<notin> {Some ''Filled'', Some ''N/A (External/Synced)''}
          then (False, b)
          else
            (let pos_data_from_api = find_position (fst k) (snd k) (kp_positions g) in
             case absent_or_zero pos_data_from_api of
               None \<Rightarrow> (True, b)
             | Some True \<Rightarrow> (False, handle_closed_position now k (Some pos_details) None b)
             | Some False \<Rightarrow>
                 (let p = the pos_data_from_api in
                  case live_price (p_avgPrice p) of
                    None \<Rightarrow> (True, b)
                  | Some live_avg_price \<Rightarrow>
                      (let (d1, b1) =
                             (if live_avg_price \<noteq> None
                                 \<and> \<not> eq_dec_opt (entry_price pos_details) live_avg_price
                              then (let d = pos_details\<lparr>entry_price := live_avg_price\<rparr>
                                    in (d, save_positions_step (set_details k d b)))
                              else (pos_details, b));
                           actual_entry_price = dec_or (entry_price d1) (signal_entry_price d1);
                           breakeven_already_applied = breakeven_applied d1
                       in
                         (case partial_tp_breakeven e now k p breakeven_already_applied
                                 actual_entry_price d1 b1 of
                            None \<Rightarrow> (True, b1)
                          | Some (d2, b2) \<Rightarrow>
                              (let (d3, b3) = tp1_breakeven e now k p (kp_last_price g)
                                                breakeven_already_applied actual_entry_price d2 b2;
                                   (ok, b4) = verify_and_set_tpsl_for_position e now (kp_verify g)
                                                (fst k) (snd k) b3
                               in (False, emit (Sleep (2 / 10)) b4)))))))"

section \<open>Notions used to state the properties of the reconciliation loop\<close>

text \<open>The entry the store holds under a key.\<close>

definition details_of :: "bot \<Rightarrow> pos_key \<Rightarrow> tracked_position option" where
  "details_of b k = map_of (active_positions_details b) k"

text \<open>
  An attempt of the verification that finds the position open, its stops different from
  the intended ones, and whose set-stops call fails.
\<close>

definition stop_set_fails :: "env \<Rightarrow> string \<Rightarrow> int \<Rightarrow> tracked_position \<Rightarrow> poll \<Rightarrow> bool" where
  "stop_set_fails e smb idx d g =
     (\<exists>p. find_position smb idx (positions g) = Some p
          \<and> absent_or_zero (Some p) = Some False
          \<and> tpsl_matches e smb d p = Some False
          \<and> \<not> set_trading_stop (stop_answer g)
                 (Some (stop_to_set e smb (intended_tp1 d))) (Some (stop_to_set e smb (intended_sl d))))"

text \<open>The same, with a set-stops call that succeeds.\<close>

definition stop_set_succeeds :: "env \<Rightarrow> string \<Rightarrow> int \<Rightarrow> tracked_position \<Rightarrow> poll \<Rightarrow> bool" where
  "stop_set_succeeds e smb idx d g =
     (\<exists>p. find_position smb idx (positions g) = Some p
          \<and> absent_or_zero (Some p) = Some False
          \<and> tpsl_matches e smb d p = Some False
          \<and> set_trading_stop (stop_answer g)
               (Some (stop_to_set e smb (intended_tp1 d))) (Some (stop_to_set e smb (intended_sl d))))"

text \<open>The entry price that the break-even logic uses: the confirmed one, else the signal's.\<close>

definition promotion_entry_price :: "tracked_position \<Rightarrow> decimal option" where
  "promotion_entry_price d = dec_or (entry_price d) (signal_entry_price d)"

text \<open>Two prices are equal after both are rounded to the tick size.\<close>

definition equal_at_tick :: "env \<Rightarrow> string \<Rightarrow> decimal option \<Rightarrow> decimal option \<Rightarrow> bool" where
  "equal_at_tick e smb x y =
     (case (formatted_intended e smb x, formatted_intended e smb y) of
        (Some fx, Some fy) \<Rightarrow> eq_dec_opt fx fy
      | _ \<Rightarrow> False)"

text \<open>The state an attempt of the verification ends in.\<close>

fun outcome_bot :: "attempt_outcome \<Rightarrow> bot" where
  "outcome_bot (Return r b) = b"
| "outcome_bot (NextAttempt b) = b"

text \<open>Two entries that differ at most in their time stamp.\<close>

definition same_but_time :: "tracked_position \<Rightarrow> tracked_position \<Rightarrow> bool" where
  "same_but_time d d' = (d' = d\<lparr>last_update_time := last_update_time d'\<rparr>)"

section \<open>Concrete inputs for the reconciliation loop\<close>

text \<open>
  A filled long position of size 2 entered at 100.0 with a stop at 95.0 and a target at
  110.0, the store that tracks it, and answers of the gateway: the position as the
  exchange may report it, a set-stops request that is rejected and one that is accepted.
\<close>

definition example_position :: tracked_position where
  "example_position =
     \<lparr>symbol = ''BTCUSDT'', position_idx = 0, side = ''BUY'',
      entry_price = Some (Decimal False 1000 (- 1)), signal_entry_price = None,
      intended_sl = Some (Decimal False 950 (- 1)), intended_tp1 = Some (Decimal False 1100 (- 1)),
      tp1_price = Some (Decimal False 1100 (- 1)), breakeven_applied = False,
      main_order_id = Some ''order-1'', main_order_status = Some ''Filled'', tp_order_ids = [],
      last_update_time = example_now, last_known_size = Some (Decimal False 2 0)\<rparr>"

definition tracking_bot :: "tracked_position \<Rightarrow> bot" where
  "tracking_bot d = example_bot\<lparr>active_positions_details := [((symbol d, position_idx d), d)]\<rparr>"

definition live_position :: "string \<Rightarrow> string \<Rightarrow> string \<Rightarrow> api_position" where
  "live_position sz tp sl =
     \<lparr>p_symbol = Some ''BTCUSDT'', p_positionIdx = Some 0, p_side = Some ''Buy'', p_size = Some sz,
      p_avgPrice = Some ''100.0'', p_stopLoss = Some sl, p_takeProfit = Some tp\<rparr>"

definition rejecting :: "nat \<Rightarrow> raw_outcome" where
  "rejecting i = RawDict (Some 10001) (Some ''params error'')"

definition accepting :: "nat \<Rightarrow> raw_outcome" where
  "accepting i = RawDict (Some 0) (Some ''OK'')"

definition not_modified :: "nat \<Rightarrow> raw_outcome" where
  "not_modified i = RawDict (Some 110043) (Some ''Position TPSL identical modify'')"

section \<open>Printing and reading numbers\<close>

lemma lt10_cases:
  assumes "d < (10::nat)"
  obtains "d = 0" | "d = 1" | "d = 2" | "d = 3" | "d = 4" | "d = 5" | "d = 6" | "d = 7" | "d = 8" | "d = 9"
proof -
  from assms
  have "d = 0 \<or> d = 1 \<or> d = 2 \<or> d = 3 \<or> d = 4 \<or> d = 5 \<or> d = 6 \<or> d = 7 \<or> d = 8 \<or> d = 9"
    by arith
  then show thesis using that by blast
qed

lemma is_digit_char_of_digit: "d < 10 \<Longrightarrow> is_digit (char_of_digit d)"
  by (erule lt10_cases) (simp_all add: is_digit_def char_of_digit_def digit_chars_def)

lemma digit_of_char_of_digit: "d < 10 \<Longrightarrow> digit_of_char (char_of_digit d) = d"
  by (erule lt10_cases) (simp_all add: digit_of_char_def char_of_digit_def digit_chars_def)

lemma show_nat_digits: "list_all is_digit (show_nat n)"
proof (induction n rule: show_nat.induct)
  case (1 n)
  show ?case
  proof (cases "n < 10")
    case True
    then show ?thesis by (simp add: show_nat.simps [of n] is_digit_char_of_digit)
  next
    case False
    with 1 show ?thesis by (simp add: show_nat.simps [of n] is_digit_char_of_digit)
  qed
qed

lemma show_nat_nonempty: "show_nat n \<noteq> []"
  by (simp add: show_nat.simps [of n])

lemma nat_of_digits_snoc: "nat_of_digits (xs @ [c]) = 10 * nat_of_digits xs + digit_of_char c"
  by (simp add: nat_of_digits_def)

lemma nat_of_digits_show_nat: "nat_of_digits (show_nat n) = n"
proof (induction n rule: show_nat.induct)
  case (1 n)
  show ?case
  proof (cases "n < 10")
    case True
    then show ?thesis
      using nat_of_digits_snoc [of "[]" "char_of_digit n"]
      by (simp add: show_nat.simps [of n] digit_of_char_of_digit nat_of_digits_def)
  next
    case False
    with 1 show ?thesis
      by (simp add: show_nat.simps [of n] nat_of_digits_snoc digit_of_char_of_digit)
  qed
qed

lemma nat_of_digits_zeros: "nat_of_digits (replicate k (CHR ''0'') @ xs) = nat_of_digits xs"
  by (induction k) (simp_all add: nat_of_digits_def digit_of_char_def digit_chars_def)

lemma nat_of_digits_zero_Cons: "nat_of_digits (CHR ''0'' # xs) = nat_of_digits xs"
  using nat_of_digits_zeros [of 1 xs] by simp

lemma is_digit_dec_char: "list_all is_digit xs \<Longrightarrow> list_all dec_char xs"
  by (induction xs) (simp_all add: dec_char_def)

lemma dec_char_not_space: "dec_char c \<Longrightarrow> \<not> is_space c"
  by (auto simp: dec_char_def is_digit_def digit_chars_def is_space_def whitespace_chars_def)

lemma dec_char_not_underscore: "dec_char c \<Longrightarrow> c \<noteq> CHR ''_''"
  by (auto simp: dec_char_def is_digit_def digit_chars_def)

lemma py_strip_no_space:
  assumes "list_all (\<lambda>c. \<not> is_space c) s"
  shows "py_strip s = s"
proof -
  from assms have "dropWhile is_space s = s" by (cases s) simp_all
  moreover from assms have "list_all (\<lambda>c. \<not> is_space c) (rev s)" by (simp add: list_all_iff)
  then have "dropWhile is_space (rev s) = rev s" by (cases "rev s") simp_all
  ultimately show ?thesis by (simp add: py_strip_def)
qed

lemma normalise_dec_chars:
  assumes "list_all dec_char s"
  shows "filter (\<lambda>c. c \<noteq> CHR ''_'') (py_strip s) = s"
proof -
  from assms have "list_all (\<lambda>c. \<not> is_space c) s"
    by (auto simp: list_all_iff dec_char_not_space)
  then have "py_strip s = s" by (rule py_strip_no_space)
  moreover from assms have "filter (\<lambda>c. c \<noteq> CHR ''_'') s = s"
    by (auto simp: list_all_iff dec_char_not_underscore intro: filter_True)
  ultimately show ?thesis by simp
qed

lemma is_digit_zero [simp]: "is_digit (CHR ''0'')"
  by (simp add: is_digit_def digit_chars_def)

lemma not_digit_punct [simp]:
  "\<not> is_digit (CHR ''.'')" "\<not> is_digit (CHR ''E'')" "\<not> is_digit (CHR ''-'')"
  "\<not> is_digit (CHR ''+'')" "\<not> is_digit (CHR ''_'')"
  by (simp_all add: is_digit_def digit_chars_def)

lemma takeWhile_digits:
  assumes "list_all is_digit xs" "ys = [] \<or> \<not> is_digit (hd ys)"
  shows "takeWhile is_digit (xs @ ys) = xs" "dropWhile is_digit (xs @ ys) = ys"
proof -
  from assms(2) have "takeWhile is_digit ys = []" "dropWhile is_digit ys = ys"
    by (cases ys; simp)+
  with assms(1) show "takeWhile is_digit (xs @ ys) = xs" "dropWhile is_digit (xs @ ys) = ys"
    by (induction xs) simp_all
qed

lemma format_plus_d_parse: "parse_exponent (''E'' @ format_plus_d e) = Some e"
proof -
  have d: "list_all is_digit (show_nat (nat \<bar>e\<bar>))" "show_nat (nat \<bar>e\<bar>) \<noteq> []"
    by (rule show_nat_digits, rule show_nat_nonempty)
  show ?thesis
    using d by (cases "e < 0")
      (simp_all add: parse_exponent_def format_plus_d_def split_sign_def nat_of_digits_show_nat)
qed

text \<open>
  Reading a numeral that is given by its parts: a sign, integer digits, an optional
  fraction and an optional exponent.
\<close>

lemma py_Decimal_parts:
  assumes ip: "ip \<noteq> []" "list_all is_digit ip"
    and fp: "list_all is_digit fp"
    and fs: "fs = [] \<and> fp = [] \<or> fs = ''.'' @ fp"
    and es: "es = [] \<and> e = 0 \<or> es = ''E'' @ format_plus_d e"
  shows "py_Decimal ((if sg then ''-'' else '''') @ ip @ fs @ es)
          = Some (Decimal sg (nat_of_digits (ip @ fp)) (e - int (length fp)))"
proof -
  let ?s = "(if sg then ''-'' else '''') @ ip @ fs @ es"
  have pe: "parse_exponent es = Some e"
    using es format_plus_d_parse by (auto simp: parse_exponent_def)
  have es_hd: "es = [] \<or> \<not> is_digit (hd es)" using es by auto
  have fses_hd: "fs @ es = [] \<or> \<not> is_digit (hd (fs @ es))" using fs es by auto
  have fmt: "list_all dec_char (show_nat (nat \<bar>e\<bar>))"
    by (rule is_digit_dec_char [OF show_nat_digits])
  have "list_all dec_char ?s"
    using fs es fmt is_digit_dec_char [OF ip(2)] is_digit_dec_char [OF fp]
    by (auto simp: dec_char_def format_plus_d_def)
  then have norm: "filter (\<lambda>c. c \<noteq> CHR ''_'') (py_strip ?s) = ?s"
    by (rule normalise_dec_chars)
  have hd_ip: "is_digit (hd ip)" using ip by (cases ip) simp_all
  have sgn: "split_sign ?s = (sg, ip @ fs @ es)"
    using ip hd_ip by (cases ip) (auto simp: split_sign_def)
  have tw: "takeWhile is_digit (ip @ fs @ es) = ip" "dropWhile is_digit (ip @ fs @ es) = fs @ es"
    using takeWhile_digits [OF ip(2) fses_hd] by simp_all
  have sf: "split_fraction (fs @ es) = (fp, es)"
  proof (cases "fs = []")
    case True
    with fs have "fp = []" by auto
    with True es show ?thesis by (auto simp: split_fraction_def)
  next
    case False
    with fs have "fs = ''.'' @ fp" by auto
    then show ?thesis
      using takeWhile_digits [OF fp es_hd] by (simp add: split_fraction_def)
  qed
  show ?thesis
    unfolding py_Decimal_def norm sgn using ip pe by (simp add: tw sf)
qed

text \<open>Printing a Decimal and reading the string back gives the same Decimal.\<close>

lemma digs_take_drop:
  "list_all is_digit (take k (show_nat c))" "list_all is_digit (drop k (show_nat c))"
  using show_nat_digits [of c] by (auto simp: list_all_iff dest: in_set_takeD in_set_dropD)

lemma str_decimal_small:
  assumes "x \<le> 0 \<and> x + int (length (show_nat c)) > - 6" "x + int (length (show_nat c)) \<le> 0"
  shows "py_str_decimal (Decimal sg c x) = (if sg then ''-'' else '''') @ ''0''
           @ (''.'' @ replicate (nat (- (x + int (length (show_nat c))))) (CHR ''0'') @ show_nat c) @ []"
  using assms by (simp add: py_str_decimal_def Let_def)

lemma str_decimal_integer:
  assumes "0 < int (length (show_nat c))"
  shows "py_str_decimal (Decimal sg c 0) = (if sg then ''-'' else '''') @ show_nat c @ [] @ []"
  using assms by (simp add: py_str_decimal_def Let_def)

lemma str_decimal_point:
  assumes "x < 0" "0 < x + int (length (show_nat c))"
  shows "py_str_decimal (Decimal sg c x)
       = (if sg then ''-'' else '''') @ take (nat (x + int (length (show_nat c)))) (show_nat c)
           @ (''.'' @ drop (nat (x + int (length (show_nat c)))) (show_nat c)) @ []"
  using assms by (simp add: py_str_decimal_def Let_def)

lemma str_decimal_sci1:
  assumes "\<not> (x \<le> 0 \<and> x + int (length (show_nat c)) > - 6)" "length (show_nat c) = 1"
  shows "py_str_decimal (Decimal sg c x)
       = (if sg then ''-'' else '''') @ show_nat c @ [] @ (''E'' @ format_plus_d x)"
  using assms by (auto simp: py_str_decimal_def Let_def)

lemma str_decimal_sci:
  assumes "\<not> (x \<le> 0 \<and> x + int (length (show_nat c)) > - 6)" "1 < length (show_nat c)"
  shows "py_str_decimal (Decimal sg c x)
       = (if sg then ''-'' else '''') @ take 1 (show_nat c) @ (''.'' @ drop 1 (show_nat c))
           @ (''E'' @ format_plus_d (x + int (length (show_nat c)) - 1))"
  using assms by (auto simp: py_str_decimal_def Let_def)

lemma read_small:
  assumes "x \<le> 0 \<and> x + int (length (show_nat c)) > - 6" "x + int (length (show_nat c)) \<le> 0"
  shows "py_Decimal (py_str_decimal (Decimal sg c x)) = Some (Decimal sg c x)"
proof -
  let ?ds = "show_nat c"
  let ?z = "replicate (nat (- (x + int (length ?ds)))) (CHR ''0'')"
  have fpd: "list_all is_digit (?z @ ?ds)"
    using show_nat_digits [of c] by (auto simp: list_all_iff)
  have "py_Decimal ((if sg then ''-'' else '''') @ ''0'' @ (''.'' @ ?z @ ?ds) @ [])
      = Some (Decimal sg (nat_of_digits (''0'' @ ?z @ ?ds)) (0 - int (length (?z @ ?ds))))"
    using fpd by (intro py_Decimal_parts) simp_all
  moreover have "nat_of_digits (''0'' @ ?z @ ?ds) = c"
    by (simp add: nat_of_digits_zero_Cons nat_of_digits_zeros nat_of_digits_show_nat)
  moreover have "0 - int (length (?z @ ?ds)) = x" using assms by simp
  ultimately show ?thesis by (simp only: str_decimal_small [OF assms])
qed

lemma read_integer: "py_Decimal (py_str_decimal (Decimal sg c 0)) = Some (Decimal sg c 0)"
proof -
  let ?ds = "show_nat c"
  have pos: "0 < int (length ?ds)" using show_nat_nonempty [of c] by simp
  have "py_Decimal ((if sg then ''-'' else '''') @ ?ds @ [] @ [])
      = Some (Decimal sg (nat_of_digits (?ds @ [])) (0 - int (length ([]::string))))"
    using show_nat_digits [of c] show_nat_nonempty [of c] by (intro py_Decimal_parts) simp_all
  then show ?thesis
    by (simp add: str_decimal_integer [OF pos] nat_of_digits_show_nat)
qed

lemma read_point:
  assumes "x < 0" "0 < x + int (length (show_nat c))"
  shows "py_Decimal (py_str_decimal (Decimal sg c x)) = Some (Decimal sg c x)"
proof -
  let ?ds = "show_nat c"
  let ?k = "nat (x + int (length ?ds))"
  have k: "0 < ?k" "?k < length ?ds" using assms by auto
  then have tne: "take ?k ?ds \<noteq> []" by auto
  have "py_Decimal ((if sg then ''-'' else '''') @ take ?k ?ds @ (''.'' @ drop ?k ?ds) @ [])
      = Some (Decimal sg (nat_of_digits (take ?k ?ds @ drop ?k ?ds)) (0 - int (length (drop ?k ?ds))))"
    using tne digs_take_drop [of ?k c] by (intro py_Decimal_parts) simp_all
  moreover have "0 - int (length (drop ?k ?ds)) = x" using k assms by simp
  ultimately show ?thesis
    by (simp add: str_decimal_point [OF assms] nat_of_digits_show_nat)
qed

lemma read_sci1:
  assumes "\<not> (x \<le> 0 \<and> x + int (length (show_nat c)) > - 6)" "length (show_nat c) = 1"
  shows "py_Decimal (py_str_decimal (Decimal sg c x)) = Some (Decimal sg c x)"
proof -
  let ?ds = "show_nat c"
  have "py_Decimal ((if sg then ''-'' else '''') @ ?ds @ [] @ (''E'' @ format_plus_d x))
      = Some (Decimal sg (nat_of_digits (?ds @ [])) (x - int (length ([]::string))))"
    using show_nat_digits [of c] show_nat_nonempty [of c] by (intro py_Decimal_parts) simp_all
  then show ?thesis
    by (simp add: str_decimal_sci1 [OF assms] nat_of_digits_show_nat)
qed

lemma read_sci:
  assumes "\<not> (x \<le> 0 \<and> x + int (length (show_nat c)) > - 6)" "1 < length (show_nat c)"
  shows "py_Decimal (py_str_decimal (Decimal sg c x)) = Some (Decimal sg c x)"
proof -
  let ?ds = "show_nat c"
  let ?e = "x + int (length ?ds) - 1"
  have tne: "take 1 ?ds \<noteq> []" using assms(2) by auto
  have "py_Decimal ((if sg then ''-'' else '''') @ take 1 ?ds @ (''.'' @ drop 1 ?ds)
          @ (''E'' @ format_plus_d ?e))
      = Some (Decimal sg (nat_of_digits (take 1 ?ds @ drop 1 ?ds)) (?e - int (length (drop 1 ?ds))))"
    using tne digs_take_drop [of 1 c] by (intro py_Decimal_parts) simp_all
  moreover have "?e - int (length (drop 1 ?ds)) = x" using assms(2) by simp
  ultimately show ?thesis
    by (simp add: str_decimal_sci [OF assms] nat_of_digits_show_nat)
qed

lemma py_Decimal_str_decimal [simp]: "py_Decimal (py_str_decimal d) = Some d"
proof (cases d)
  case (Decimal sg c x)
  let ?L = "int (length (show_nat c))"
  have pos: "0 < ?L" using show_nat_nonempty [of c] by simp
  consider "x \<le> 0 \<and> x + ?L > - 6" "x + ?L \<le> 0"
    | "x = 0"
    | "x < 0" "0 < x + ?L"
    | "\<not> (x \<le> 0 \<and> x + ?L > - 6)" "length (show_nat c) = 1"
    | "\<not> (x \<le> 0 \<and> x + ?L > - 6)" "1 < length (show_nat c)"
    using pos by (cases "length (show_nat c) = 1") force+
  then show ?thesis
  proof cases
    case 1
    then show ?thesis unfolding Decimal by (rule read_small)
  next
    case 2
    then show ?thesis unfolding Decimal by (simp only: read_integer)
  next
    case 3
    then show ?thesis unfolding Decimal by (rule read_point)
  next
    case 4
    then show ?thesis unfolding Decimal by (rule read_sci1)
  next
    case 5
    then show ?thesis unfolding Decimal by (rule read_sci)
  qed
qed

section \<open>Properties of the entry executor\<close>

lemma emit_fields [simp]:
  "effects (emit x b) = effects b @ [x]"
  "trade_history (emit x b) = trade_history b"
  "active_positions_details (emit x b) = active_positions_details b"
  "current_available_balance (emit x b) = current_available_balance b"
  "running (emit x b) = running b"
  "bybit_connected (emit x b) = bybit_connected b"
  by (simp_all add: emit_def)

lemma entry_calls_emit [simp]: "entry_calls (emit x b) = entry_calls b @ (if is_entry_call x then [x] else [])"
  by (simp add: entry_calls_def)


lemma add_trade_to_history_fields [simp]:
  "effects (add_trade_to_history now s ot sd q p oid st pnl n b) = effects b @ [SaveHistory]"
  "trade_history (add_trade_to_history now s ot sd q p oid st pnl n b)
     = trade_history b @ [make_trade_event now s ot sd q p oid st pnl n]"
  "active_positions_details (add_trade_to_history now s ot sd q p oid st pnl n b)
     = active_positions_details b"
  "current_available_balance (add_trade_to_history now s ot sd q p oid st pnl n b)
     = current_available_balance b"
  "running (add_trade_to_history now s ot sd q p oid st pnl n b) = running b"
  "bybit_connected (add_trade_to_history now s ot sd q p oid st pnl n b) = bybit_connected b"
  by (simp_all add: add_trade_to_history_def)

lemma make_trade_event_status [simp]:
  "h_status (make_trade_event now s ot sd q p oid st pnl n) = st"
  by (simp add: make_trade_event_def)

lemma entry_calls_add_trade [simp]:
  "entry_calls (add_trade_to_history now s ot sd q p oid st pnl n b) = entry_calls b"
  by (simp add: entry_calls_def)










lemma pow10_pos [simp]: "0 < pow10 x"
  by (simp add: pow10_def)

lemma pow10_zero [simp]: "pow10 0 = 1"
  by (simp add: pow10_def)

lemma pow10_nonneg [simp]: "0 \<le> pow10 x"
  using pow10_pos [of x] by (rule less_imp_le)

lemma pow10_nonzero [simp]: "pow10 x \<noteq> 0"
  using pow10_pos [of x] by (rule less_imp_neq [symmetric])

lemma abs_pow10 [simp]: "\<bar>pow10 x\<bar> = pow10 x"
  by (rule abs_of_nonneg) simp

lemma dval_positive:
  assumes "0 < dval d"
  shows "\<not> dsign d" "0 < dcoeff d"
proof -
  have p: "0 < pow10 (dexp d)" by simp
  show "\<not> dsign d"
  proof
    assume "dsign d"
    then have "dval d = - (of_nat (dcoeff d) * pow10 (dexp d))" by (simp add: dval_def)
    moreover have "0 \<le> of_nat (dcoeff d) * pow10 (dexp d)" using p by simp
    ultimately show False using assms by simp
  qed
  show "0 < dcoeff d"
  proof (rule ccontr)
    assume "\<not> 0 < dcoeff d"
    then have "dval d = 0" by (simp add: dval_def)
    with assms show False by simp
  qed
qed

lemma quantize_down_multiple:
  "quantize_down (of_nat m * pow10 x) x = Decimal False m x"
proof -
  have "\<bar>(of_nat m :: rat) * pow10 x\<bar> / pow10 x = of_nat m"
    using pow10_pos [of x] by (simp add: abs_mult)
  moreover have "\<not> (of_nat m :: rat) * pow10 x < 0"
    using pow10_pos [of x] by (simp add: not_less)
  ultimately show ?thesis by (simp add: quantize_down_def)
qed





section \<open>Properties of the reconciliation loop\<close>


lemma set_details_fields [simp]:
  "active_positions_details (set_details k d b) = AList.update k d (active_positions_details b)"
  "effects (set_details k d b) = effects b"
  "trade_history (set_details k d b) = trade_history b"
  by (simp_all add: set_details_def)

lemma save_positions_step_fields [simp]:
  "active_positions_details (save_positions_step b) = active_positions_details b"
  "effects (save_positions_step b) = effects b @ [SavePositions]"
  "trade_history (save_positions_step b) = trade_history b"
  by (simp_all add: save_positions_step_def)

lemma details_of_simps [simp]:
  "details_of (emit x b) k = details_of b k"
  "details_of (save_positions_step b) k = details_of b k"
  "details_of (add_trade_to_history now s ot sd q p oid st pnl n b) k = details_of b k"
  "details_of (set_details k' d b) k = (if k = k' then Some d else details_of b k)"
  by (simp_all add: details_of_def update_conv')

text \<open>What \<open>handle_closed_position\<close> does to a tracked key and to an untracked one.\<close>

lemma handle_closed_position_tracked:
  assumes "details_of b k = Some d"
  shows "active_positions_details (handle_closed_position now k data reason b)
           = AList.delete k (active_positions_details b)"
    and "effects (handle_closed_position now k data reason b)
           = effects b @ [SavePositions, SaveHistory, SendMessage]"
    and "trade_history (handle_closed_position now k data reason b)
           = trade_history b
             @ [make_trade_event now (fst k) ''System Close'' (side d) (str_dec_opt (last_known_size d))
                  (Some ''N/A'') None
                  (''Position Closed ('' @ or_default reason ''Position Closed (Reason Undetermined)'' @ '')'')
                  (Some ''N/A'') (Some (''PosIdx '' @ show_int (snd k)))]"
  using assms
  by (simp_all add: handle_closed_position_def details_of_def Let_def delete_conv' split: option.splits)

lemma handle_closed_position_untracked:
  assumes "details_of b k = None"
  shows "handle_closed_position now k data reason b = save_positions_step b"
  using assms by (simp add: handle_closed_position_def details_of_def)

lemma details_of_handle_closed:
  "details_of (handle_closed_position now k data reason b) k' = (if k' = k then None else details_of b k')"
proof (cases "details_of b k")
  case None
  then show ?thesis by (auto simp: handle_closed_position_untracked)
next
  case (Some d)
  show ?thesis
    unfolding details_of_def [of "handle_closed_position now k data reason b"]
      handle_closed_position_tracked(1) [OF Some]
    by (simp add: delete_conv' details_of_def)
qed


lemma verify_attempt_fails:
  assumes d: "details_of b (smb, idx) = Some d"
    and f: "stop_set_fails e smb idx d g"
  shows "verify_attempt e now g smb idx i b =
     (if i < TPSL_VERIFICATION_RETRIES
      then NextAttempt (emit (Sleep TPSL_RETRY_DELAY_SECONDS)
             (emit (SetTradingStop (stop_to_set e smb (intended_tp1 d)) (stop_to_set e smb (intended_sl d))) b))
      else Return False
             (add_trade_to_history now smb ''System'' ''Alert'' ''N/A'' None None
                ''CRITICAL: TP/SL Set Fail'' (Some ''0.00'') (Some (''PosIdx '' @ show_int idx))
                (emit (SetTradingStop (stop_to_set e smb (intended_tp1 d)) (stop_to_set e smb (intended_sl d))) b)))"
proof -
  from f obtain p where p: "find_position smb idx (positions g) = Some p"
    "absent_or_zero (Some p) = Some False" "tpsl_matches e smb d p = Some False"
    "\<not> set_trading_stop (stop_answer g)
         (Some (stop_to_set e smb (intended_tp1 d))) (Some (stop_to_set e smb (intended_sl d)))"
    unfolding stop_set_fails_def by blast
  have "verify_try e now g smb idx i d b = Some
     (if i < TPSL_VERIFICATION_RETRIES
      then NextAttempt (emit (Sleep TPSL_RETRY_DELAY_SECONDS)
             (emit (SetTradingStop (stop_to_set e smb (intended_tp1 d)) (stop_to_set e smb (intended_sl d))) b))
      else Return False
             (add_trade_to_history now smb ''System'' ''Alert'' ''N/A'' None None
                ''CRITICAL: TP/SL Set Fail'' (Some ''0.00'') (Some (''PosIdx '' @ show_int idx))
                (emit (SetTradingStop (stop_to_set e smb (intended_tp1 d)) (stop_to_set e smb (intended_sl d))) b)))"
    unfolding verify_try_def Let_def p by (simp add: p)
  then show ?thesis
    using d by (simp add: verify_attempt_def details_of_def)
qed

lemma verify_exhausts_retries:
  assumes d: "details_of b (smb, idx) = Some d"
    and f: "\<forall>i \<le> TPSL_VERIFICATION_RETRIES. stop_set_fails e smb idx d (gw i)"
  shows "verify_and_set_tpsl_for_position e now gw smb idx b =
           (False,
            b\<lparr>trade_history := trade_history b
                 @ [make_trade_event now smb ''System'' ''Alert'' ''N/A'' None None
                      ''CRITICAL: TP/SL Set Fail'' (Some ''0.00'') (Some (''PosIdx '' @ show_int idx))],
              effects := effects b
                 @ [SetTradingStop (stop_to_set e smb (intended_tp1 d)) (stop_to_set e smb (intended_sl d)),
                    Sleep TPSL_RETRY_DELAY_SECONDS,
                    SetTradingStop (stop_to_set e smb (intended_tp1 d)) (stop_to_set e smb (intended_sl d)),
                    Sleep TPSL_RETRY_DELAY_SECONDS,
                    SetTradingStop (stop_to_set e smb (intended_tp1 d)) (stop_to_set e smb (intended_sl d)),
                    Sleep TPSL_RETRY_DELAY_SECONDS,
                    SetTradingStop (stop_to_set e smb (intended_tp1 d)) (stop_to_set e smb (intended_sl d)),
                    SaveHistory]\<rparr>)"
proof -
  let ?S = "SetTradingStop (stop_to_set e smb (intended_tp1 d)) (stop_to_set e smb (intended_sl d))"
  let ?W = "Sleep TPSL_RETRY_DELAY_SECONDS"
  let ?b1 = "emit ?W (emit ?S b)"
  let ?b2 = "emit ?W (emit ?S ?b1)"
  let ?b3 = "emit ?W (emit ?S ?b2)"
  have f0: "stop_set_fails e smb idx d (gw 0)" and f1: "stop_set_fails e smb idx d (gw (Suc 0))"
    and f2: "stop_set_fails e smb idx d (gw (Suc (Suc 0)))"
    and f3: "stop_set_fails e smb idx d (gw (Suc (Suc (Suc 0))))"
    using f by (simp_all add: TPSL_VERIFICATION_RETRIES_def)
  have d1: "details_of ?b1 (smb, idx) = Some d" and d2: "details_of ?b2 (smb, idx) = Some d"
    and d3: "details_of ?b3 (smb, idx) = Some d"
    using d by simp_all
  have r: "0 < TPSL_VERIFICATION_RETRIES" "Suc 0 < TPSL_VERIFICATION_RETRIES"
    "Suc (Suc 0) < TPSL_VERIFICATION_RETRIES" "\<not> Suc (Suc (Suc 0)) < TPSL_VERIFICATION_RETRIES"
    by (simp_all add: TPSL_VERIFICATION_RETRIES_def)
  have a0: "verify_attempt e now (gw 0) smb idx 0 b = NextAttempt ?b1"
    using verify_attempt_fails [OF d f0, of now 0] r by simp
  have a1: "verify_attempt e now (gw (Suc 0)) smb idx (Suc 0) ?b1 = NextAttempt ?b2"
    using verify_attempt_fails [OF d1 f1, of now "Suc 0"] r by simp
  have a2: "verify_attempt e now (gw (Suc (Suc 0))) smb idx (Suc (Suc 0)) ?b2 = NextAttempt ?b3"
    using verify_attempt_fails [OF d2 f2, of now "Suc (Suc 0)"] r by simp
  have a3: "verify_attempt e now (gw (Suc (Suc (Suc 0)))) smb idx (Suc (Suc (Suc 0))) ?b3 =
      Return False (add_trade_to_history now smb ''System'' ''Alert'' ''N/A'' None None
                ''CRITICAL: TP/SL Set Fail'' (Some ''0.00'') (Some (''PosIdx '' @ show_int idx))
                (emit ?S ?b3))"
    using verify_attempt_fails [OF d3 f3, of now "Suc (Suc (Suc 0))"] r by simp
  have n: "TPSL_VERIFICATION_RETRIES + 1 = Suc (Suc (Suc (Suc 0)))"
    by (simp add: TPSL_VERIFICATION_RETRIES_def)
  have "verify_and_set_tpsl_for_position e now gw smb idx b =
      (False, add_trade_to_history now smb ''System'' ''Alert'' ''N/A'' None None
                ''CRITICAL: TP/SL Set Fail'' (Some ''0.00'') (Some (''PosIdx '' @ show_int idx))
                (emit ?S ?b3))"
    unfolding verify_and_set_tpsl_for_position_def n verify_loop.simps a0 a1 a2 a3 attempt_outcome.case
    by (rule refl)
  then show ?thesis
    by (simp add: add_trade_to_history_def emit_def)
qed


lemma stop_calls_simps [simp]:
  "stop_calls (emit x b) = stop_calls b @ (if is_stop_call x then [x] else [])"
  "stop_calls (save_positions_step b) = stop_calls b"
  "stop_calls (add_trade_to_history now s ot sd q p oid st pnl n b) = stop_calls b"
  "stop_calls (set_details k d b) = stop_calls b"
  by (simp_all add: stop_calls_def save_positions_step_def)

lemma stop_calls_handle_closed [simp]:
  "stop_calls (handle_closed_position now k data reason b) = stop_calls b"
proof (cases "details_of b k")
  case None
  then show ?thesis by (simp add: handle_closed_position_untracked)
next
  case (Some d)
  then show ?thesis
    by (simp add: stop_calls_def handle_closed_position_tracked(2))
qed

lemma same_but_time_refl [simp]: "same_but_time d d"
  by (simp add: same_but_time_def)

lemma verify_try_stop_calls:
  assumes "verify_try e now g smb idx i d b = Some out"
  shows "length (stop_calls (outcome_bot out)) \<le> Suc (length (stop_calls b))"
  using assms
  by (auto simp: verify_try_def Let_def split: option.splits bool.splits if_splits)

lemma verify_attempt_stop_calls:
  "length (stop_calls (outcome_bot (verify_attempt e now g smb idx i b))) \<le> Suc (length (stop_calls b))"
proof (cases "details_of b (smb, idx)")
  case None
  then show ?thesis by (simp add: verify_attempt_def details_of_def)
next
  case (Some d)
  show ?thesis
  proof (cases "verify_try e now g smb idx i d b")
    case None
    with Some show ?thesis by (simp add: verify_attempt_def details_of_def)
  next
    case (Some out)
    with \<open>details_of b (smb, idx) = Some d\<close> verify_try_stop_calls [OF Some]
    show ?thesis by (simp add: verify_attempt_def details_of_def)
  qed
qed

lemma verify_loop_stop_calls:
  "length (stop_calls (snd (verify_loop n i e now gw smb idx b))) \<le> length (stop_calls b) + n"
proof (induction n arbitrary: i b)
  case 0
  then show ?case by simp
next
  case (Suc n)
  show ?case
  proof (cases "verify_attempt e now (gw i) smb idx i b")
    case (Return r b')
    with verify_attempt_stop_calls [of e now "gw i" smb idx i b] show ?thesis by simp
  next
    case (NextAttempt b')
    with verify_attempt_stop_calls [of e now "gw i" smb idx i b] Suc.IH [of "Suc i" b']
    show ?thesis by simp
  qed
qed

lemma verify_try_keeps:
  assumes "verify_try e now g smb idx i d b = Some out" "details_of b (smb, idx) = Some d"
    and "details_of (outcome_bot out) k = Some d'"
  shows "\<exists>d0. details_of b k = Some d0 \<and> same_but_time d0 d'"
  using assms
  by (auto simp: verify_try_def Let_def details_of_handle_closed same_but_time_def details_of_def [symmetric]
      split: option.splits bool.splits if_splits)

lemma verify_attempt_keeps:
  assumes "details_of (outcome_bot (verify_attempt e now g smb idx i b)) k = Some d'"
  shows "\<exists>d0. details_of b k = Some d0 \<and> same_but_time d0 d'"
proof (cases "details_of b (smb, idx)")
  case None
  with assms show ?thesis by (simp add: verify_attempt_def details_of_def)
next
  case (Some d)
  show ?thesis
  proof (cases "verify_try e now g smb idx i d b")
    case None
    with Some assms show ?thesis
      by (auto simp: verify_attempt_def details_of_def [symmetric] split: if_splits)
  next
    case (Some out)
    with \<open>details_of b (smb, idx) = Some d\<close> assms
    have "details_of (outcome_bot out) k = Some d'"
      by (simp add: verify_attempt_def details_of_def [symmetric])
    from verify_try_keeps [OF Some \<open>details_of b (smb, idx) = Some d\<close> this] show ?thesis .
  qed
qed

lemma same_but_time_trans: "same_but_time a b \<Longrightarrow> same_but_time b c \<Longrightarrow> same_but_time a c"
  by (cases a; cases b; cases c) (simp add: same_but_time_def)

lemma verify_loop_keeps:
  "details_of (snd (verify_loop n i e now gw smb idx b)) k = Some d'
     \<Longrightarrow> \<exists>d0. details_of b k = Some d0 \<and> same_but_time d0 d'"
proof (induction n arbitrary: i b)
  case 0
  then show ?case by auto
next
  case (Suc n)
  show ?case
  proof (cases "verify_attempt e now (gw i) smb idx i b")
    case (Return r b')
    with Suc.prems verify_attempt_keeps [of e now "gw i" smb idx i b k d'] show ?thesis by simp
  next
    case (NextAttempt b')
    with Suc.prems have "details_of (snd (verify_loop n (Suc i) e now gw smb idx b')) k = Some d'"
      by simp
    from Suc.IH [OF this] obtain d1 where d1: "details_of b' k = Some d1" "same_but_time d1 d'"
      by blast
    from verify_attempt_keeps [of e now "gw i" smb idx i b k d1] NextAttempt d1
    obtain d0 where "details_of b k = Some d0" "same_but_time d0 d1" by auto
    with d1 same_but_time_trans show ?thesis by blast
  qed
qed


text \<open>
  The string that a price which is not negative is formatted to, for an instrument with a
  tick size that is a positive number.
\<close>

lemma format_to_step_string:
  assumes s: "truthy_str step_str" "py_Decimal (the step_str) = Some step" "0 < dval step"
    and v: "0 \<le> v"
  shows "format_to_step e step_str precision v
           = py_str_decimal (Decimal False (nat \<lfloor>v / dval step\<rfloor> * dcoeff step) (dexp step))"
proof -
  let ?n = "nat \<lfloor>v / dval step\<rfloor>"
  have sg: "\<not> dsign step" using dval_positive [OF s(3)] by simp
  have q: "0 \<le> v / dval step" using v s(3) by simp
  have "\<bar>v / dval step\<bar> = v / dval step" using q by (rule abs_of_nonneg)
  then have k: "quantize_down (v / dval step) 0 = Decimal False ?n 0"
    using q unfolding quantize_down_def by (simp add: not_less del: abs_divide)
  have prod: "dval (dec_mul (Decimal False ?n 0) step) = of_nat (?n * dcoeff step) * pow10 (dexp step)"
    using sg by (simp add: dec_mul_def dval_def)
  have "format_to_step e step_str precision v
          = py_str_decimal (quantize_down (dval (dec_mul (Decimal False ?n 0) step)) (dexp step))"
    using s by (simp add: format_to_step_def Let_def k)
  then show ?thesis
    by (simp only: prod quantize_down_multiple)
qed

lemma format_price_tenths:
  assumes "get_instrument_detail e smb tickSize None = Some ''0.1''" "0 \<le> dval price"
  shows "format_price e price smb = py_str_decimal (Decimal False (nat \<lfloor>dval price * 10\<rfloor>) (- 1))"
proof -
  have p: "py_Decimal (the (Some ''0.1'')) = Some (Decimal False 1 (- 1))" by code_simp
  have t: "truthy_str (Some ''0.1'')" by code_simp
  have v: "dval (Decimal False 1 (- 1)) = 1 / 10" by (simp add: dval_def pow10_def)
  have pos: "0 < dval (Decimal False 1 (- 1))" unfolding v by simp
  have q: "dval price / dval (Decimal False 1 (- 1)) = dval price * 10" unfolding v by simp
  show ?thesis
    unfolding format_price_def assms(1) format_to_step_string [OF t p pos assms(2)] q
    by simp
qed

lemma example_tick: "get_instrument_detail example_env ''BTCUSDT'' tickSize None = Some ''0.1''"
  by code_simp

text \<open>Prices of the example instrument, whose tick size is 0.1.\<close>

lemma example_price:
  assumes "0 < dval price" "\<lfloor>dval price * 10\<rfloor> = int c"
  shows "format_price example_env price ''BTCUSDT'' = py_str_decimal (Decimal False c (- 1))"
    and "stop_to_set example_env ''BTCUSDT'' (Some price) = py_str_decimal (Decimal False c (- 1))"
    and "formatted_intended example_env ''BTCUSDT'' (Some price) = Some (Some (Decimal False c (- 1)))"
proof -
  have "0 \<le> dval price" using assms(1) by simp
  from format_price_tenths [OF example_tick this]
  show f: "format_price example_env price ''BTCUSDT'' = py_str_decimal (Decimal False c (- 1))"
    by (simp add: assms(2))
  have t: "truthy_dec (Some price)" using assms(1) by (simp add: truthy_dec_def)
  show "stop_to_set example_env ''BTCUSDT'' (Some price) = py_str_decimal (Decimal False c (- 1))"
    using t by (simp add: stop_to_set_def f)
  show "formatted_intended example_env ''BTCUSDT'' (Some price) = Some (Some (Decimal False c (- 1)))"
    using t by (simp add: formatted_intended_def f)
qed

lemma example_prices:
  "stop_to_set example_env ''BTCUSDT'' (Some (Decimal False 1100 (- 1))) = ''110.0''"
  "stop_to_set example_env ''BTCUSDT'' (Some (Decimal False 950 (- 1))) = ''95.0''"
  "formatted_intended example_env ''BTCUSDT'' (Some (Decimal False 1100 (- 1)))
     = Some (Some (Decimal False 1100 (- 1)))"
  "formatted_intended example_env ''BTCUSDT'' (Some (Decimal False 950 (- 1)))
     = Some (Some (Decimal False 950 (- 1)))"
proof -
  have v: "dval (Decimal False 1100 (- 1)) = 110" "dval (Decimal False 950 (- 1)) = 95"
    by (simp_all add: dval_def pow10_def)
  have s: "py_str_decimal (Decimal False 1100 (- 1)) = ''110.0''"
    "py_str_decimal (Decimal False 950 (- 1)) = ''95.0''"
    by code_simp+
  have a: "0 < dval (Decimal False 1100 (- 1))" "\<lfloor>dval (Decimal False 1100 (- 1)) * 10\<rfloor> = int 1100"
    and b: "0 < dval (Decimal False 950 (- 1))" "\<lfloor>dval (Decimal False 950 (- 1)) * 10\<rfloor> = int 950"
    unfolding v by simp_all
  show "stop_to_set example_env ''BTCUSDT'' (Some (Decimal False 1100 (- 1))) = ''110.0''"
    unfolding example_price(2) [OF a] by (rule s)
  show "stop_to_set example_env ''BTCUSDT'' (Some (Decimal False 950 (- 1))) = ''95.0''"
    unfolding example_price(2) [OF b] by (rule s)
  show "formatted_intended example_env ''BTCUSDT'' (Some (Decimal False 1100 (- 1)))
     = Some (Some (Decimal False 1100 (- 1)))"
    by (rule example_price(3) [OF a])
  show "formatted_intended example_env ''BTCUSDT'' (Some (Decimal False 950 (- 1)))
     = Some (Some (Decimal False 950 (- 1)))"
    by (rule example_price(3) [OF b])
qed

lemma py_in_prefix: "py_in sub (sub @ rest)"
proof (cases "sub @ rest")
  case Nil
  then show ?thesis by simp
next
  case (Cons a list)
  have "prefix sub (sub @ rest)" by simp
  with Cons show ?thesis by simp
qed

section \<open>Detection of a closed position\<close>

text \<open>
  C2. A tracked position whose entry order is filled and that a poll of the periodic
  pass reports absent or with size zero is retired: its key leaves the store, exactly one
  history entry is appended, whose status contains "Position Closed", and the only steps
  are saving the store, saving the history and then sending the notification, so the
  removal and the history entry precede the first point where another task can run.
  A later pass over the key, and a second call of the handler, add no further entry.
\<close>

theorem closed_position_is_retired_once:
  assumes d: "details_of b k = Some d"
    and st: "main_order_status d = Some ''Filled''"
    and gone: "absent_or_zero (find_position (fst k) (snd k) (kp_positions g)) = Some True"
  shows "let r = maintain_position e now g k b in
     fst r = False
     \<and> details_of (snd r) k = None
     \<and> active_positions_details (snd r) = AList.delete k (active_positions_details b)
     \<and> (\<exists>ev. trade_history (snd r) = trade_history b @ [ev] \<and> py_in ''Position Closed'' (h_status ev))
     \<and> effects (snd r) = effects b @ [SavePositions, SaveHistory, SendMessage]
     \<and> (\<forall>g' now'. maintain_position e now' g' k (snd r) = (False, snd r))
     \<and> (\<forall>now' data reason. trade_history (handle_closed_position now' k data reason (snd r))
                               = trade_history (snd r))"
proof -
  let ?c = "handle_closed_position now k (Some d) None b"
  have r: "maintain_position e now g k b = (False, ?c)"
    using d st gone by (simp add: maintain_position_def details_of_def Let_def)
  have n: "details_of ?c k = None"
    by (simp add: details_of_handle_closed)
  let ?ev = "make_trade_event now (fst k) ''System Close'' (side d) (str_dec_opt (last_known_size d))
                  (Some ''N/A'') None
                  (''Position Closed ('' @ or_default None ''Position Closed (Reason Undetermined)'' @ '')'')
                  (Some ''N/A'') (Some (''PosIdx '' @ show_int (snd k)))"
  have "h_status ?ev = ''Position Closed'' @ ('' ('' @ or_default None ''Position Closed (Reason Undetermined)'' @ '')'')"
    by (simp add: make_trade_event_status)
  then have "py_in ''Position Closed'' (h_status ?ev)"
    by (simp only: py_in_prefix)
  then have h: "\<exists>ev. trade_history ?c = trade_history b @ [ev] \<and> py_in ''Position Closed'' (h_status ev)"
    unfolding handle_closed_position_tracked(3) [OF d] by blast
  have again: "maintain_position e now' g' k ?c = (False, ?c)" for g' now'
    using n by (simp add: maintain_position_def details_of_def)
  have twice: "trade_history (handle_closed_position now' k data reason ?c) = trade_history ?c"
    for now' data reason
    by (simp add: handle_closed_position_untracked [OF n])
  show ?thesis
    unfolding Let_def r fst_conv snd_conv
    using n h again twice handle_closed_position_tracked(1,2) [OF d, of now "Some d" None]
    by blast
qed

theorem closed_position_is_retired_once_witness:
  "let r = maintain_position example_env example_now
             \<lparr>kp_positions = [live_position ''0'' ''0'' ''0''], kp_last_price = Some ''101'',
               kp_verify = (\<lambda>i. \<lparr>positions = [], stop_answer = rejecting\<rparr>)\<rparr>
             (''BTCUSDT'', 0) (tracking_bot example_position)
   in main_order_status example_position = Some ''Filled''
      \<and> active_positions_details (snd r) = []
      \<and> map h_status (trade_history (snd r)) = [''Position Closed (Position Closed (Reason Undetermined))'']
      \<and> effects (snd r) = [SavePositions, SaveHistory, SendMessage]"
proof -
  let ?g = "\<lparr>kp_positions = [live_position ''0'' ''0'' ''0''], kp_last_price = Some ''101'',
               kp_verify = (\<lambda>i. \<lparr>positions = [], stop_answer = rejecting\<rparr>)\<rparr>"
  have d: "details_of (tracking_bot example_position) (''BTCUSDT'', 0) = Some example_position"
    by code_simp
  have st: "main_order_status example_position = Some ''Filled''"
    by code_simp
  have gone: "absent_or_zero (find_position (fst (''BTCUSDT'', 0::int)) (snd (''BTCUSDT'', 0::int))
                (kp_positions ?g)) = Some True"
    by code_simp
  have v: "map h_status (trade_history (snd (maintain_position example_env example_now ?g
             (''BTCUSDT'', 0) (tracking_bot example_position))))
           = [''Position Closed (Position Closed (Reason Undetermined))'']"
    "active_positions_details (tracking_bot example_position) = [((''BTCUSDT'', 0), example_position)]"
    "effects (tracking_bot example_position) = []"
    by code_simp+
  show ?thesis
    using closed_position_is_retired_once [OF d st gone, of example_env example_now] st v
    by (simp add: Let_def)
qed

section \<open>The retry budget of the stop correction\<close>

text \<open>
  C3. When every set-stops call of a verification fails, the call is made once and
  retried \<open>TPSL_VERIFICATION_RETRIES = 3\<close> times, with a wait of
  \<open>TPSL_RETRY_DELAY_SECONDS = 10\<close> seconds before each retry and nothing else in
  between; then the alert "CRITICAL: TP/SL Set Fail" is appended to the trade history,
  the verification returns \<open>False\<close> and the store is what it was, so the position stays
  tracked. Whatever the gateway answers, one verification makes at most four set-stops
  calls.
\<close>

theorem stop_correction_retries_then_alert:
  assumes d: "details_of b (smb, idx) = Some d"
    and f: "\<forall>i \<le> TPSL_VERIFICATION_RETRIES. stop_set_fails e smb idx d (gw i)"
  shows "TPSL_VERIFICATION_RETRIES = 3 \<and> TPSL_RETRY_DELAY_SECONDS = 10
    \<and> (let r = verify_and_set_tpsl_for_position e now gw smb idx b;
            call = SetTradingStop (stop_to_set e smb (intended_tp1 d)) (stop_to_set e smb (intended_sl d))
        in fst r = False
           \<and> effects (snd r) = effects b @ [call, Sleep 10, call, Sleep 10, call, Sleep 10, call, SaveHistory]
           \<and> trade_history (snd r) = trade_history b
                @ [make_trade_event now smb ''System'' ''Alert'' ''N/A'' None None
                     ''CRITICAL: TP/SL Set Fail'' (Some ''0.00'') (Some (''PosIdx '' @ show_int idx))]
           \<and> active_positions_details (snd r) = active_positions_details b
           \<and> details_of (snd r) (smb, idx) = Some d)
    \<and> (\<forall>gw'. length (stop_calls (snd (verify_and_set_tpsl_for_position e now gw' smb idx b)))
                \<le> length (stop_calls b) + 4)"
proof -
  have c: "TPSL_VERIFICATION_RETRIES = 3" "TPSL_RETRY_DELAY_SECONDS = 10"
    by (simp_all add: TPSL_VERIFICATION_RETRIES_def TPSL_RETRY_DELAY_SECONDS_def)
  have bound: "length (stop_calls (snd (verify_and_set_tpsl_for_position e now gw' smb idx b)))
                \<le> length (stop_calls b) + 4" for gw'
    using verify_loop_stop_calls [of "TPSL_VERIFICATION_RETRIES + 1" 0 e now gw' smb idx b]
    by (simp add: verify_and_set_tpsl_for_position_def c)
  have run: "let r = verify_and_set_tpsl_for_position e now gw smb idx b;
            call = SetTradingStop (stop_to_set e smb (intended_tp1 d)) (stop_to_set e smb (intended_sl d))
        in fst r = False
           \<and> effects (snd r) = effects b @ [call, Sleep 10, call, Sleep 10, call, Sleep 10, call, SaveHistory]
           \<and> trade_history (snd r) = trade_history b
                @ [make_trade_event now smb ''System'' ''Alert'' ''N/A'' None None
                     ''CRITICAL: TP/SL Set Fail'' (Some ''0.00'') (Some (''PosIdx '' @ show_int idx))]
           \<and> active_positions_details (snd r) = active_positions_details b
           \<and> details_of (snd r) (smb, idx) = Some d"
    unfolding verify_exhausts_retries [OF d f] Let_def
    using d by (simp add: c details_of_def)
  from c bound run show ?thesis by blast
qed

lemma example_stops_missing:
  "tpsl_matches example_env ''BTCUSDT'' example_position (live_position ''2'' ''0'' ''0'') = Some False"
proof -
  have l: "live_price (p_takeProfit (live_position ''2'' ''0'' ''0'')) = Some None"
    "live_price (p_stopLoss (live_position ''2'' ''0'' ''0'')) = Some None"
    by code_simp+
  have i: "intended_tp1 example_position = Some (Decimal False 1100 (- 1))"
    "intended_sl example_position = Some (Decimal False 950 (- 1))"
    by (simp_all add: example_position_def)
  have m: "\<not> stop_matches (Some (Decimal False 1100 (- 1))) None"
    by (simp add: stop_matches_def eq_dec_opt_def truthy_dec_def dval_def)
  show ?thesis
    unfolding tpsl_matches_def l i example_prices using m by simp
qed

lemma example_attempt_fails:
  "stop_set_fails example_env ''BTCUSDT'' 0 example_position
     \<lparr>positions = [live_position ''2'' ''0'' ''0''], stop_answer = rejecting\<rparr>"
proof -
  have i: "intended_tp1 example_position = Some (Decimal False 1100 (- 1))"
    "intended_sl example_position = Some (Decimal False 950 (- 1))"
    by (simp_all add: example_position_def)
  have "find_position ''BTCUSDT'' 0 (positions \<lparr>positions = [live_position ''2'' ''0'' ''0''], stop_answer = rejecting\<rparr>)
          = Some (live_position ''2'' ''0'' ''0'')"
    and "absent_or_zero (Some (live_position ''2'' ''0'' ''0'')) = Some False"
    and "\<not> set_trading_stop (stop_answer \<lparr>positions = [live_position ''2'' ''0'' ''0''], stop_answer = rejecting\<rparr>)
             (Some ''110.0'') (Some ''95.0'')"
    by code_simp+
  then show ?thesis
    unfolding stop_set_fails_def i example_prices using example_stops_missing by blast
qed

theorem stop_correction_retries_then_alert_witness:
  "details_of (tracking_bot example_position) (''BTCUSDT'', 0) = Some example_position
   \<and> (let r = verify_and_set_tpsl_for_position example_env example_now
                 (\<lambda>i. \<lparr>positions = [live_position ''2'' ''0'' ''0''], stop_answer = rejecting\<rparr>)
                 ''BTCUSDT'' 0 (tracking_bot example_position)
      in fst r = False
         \<and> effects (snd r) =
             [SetTradingStop ''110.0'' ''95.0'', Sleep 10, SetTradingStop ''110.0'' ''95.0'', Sleep 10,
              SetTradingStop ''110.0'' ''95.0'', Sleep 10, SetTradingStop ''110.0'' ''95.0'', SaveHistory]
         \<and> map h_status (trade_history (snd r)) = [''CRITICAL: TP/SL Set Fail'']
         \<and> details_of (snd r) (''BTCUSDT'', 0) = Some example_position)"
proof -
  have d: "details_of (tracking_bot example_position) (''BTCUSDT'', 0) = Some example_position"
    by code_simp
  have f: "\<forall>i \<le> TPSL_VERIFICATION_RETRIES.
             stop_set_fails example_env ''BTCUSDT'' 0 example_position
               ((\<lambda>i. \<lparr>positions = [live_position ''2'' ''0'' ''0''], stop_answer = rejecting\<rparr>) i)"
    using example_attempt_fails by simp
  have i: "intended_tp1 example_position = Some (Decimal False 1100 (- 1))"
    "intended_sl example_position = Some (Decimal False 950 (- 1))"
    by (simp_all add: example_position_def)
  have s: "effects (tracking_bot example_position) = []" "trade_history (tracking_bot example_position) = []"
    by code_simp+
  show ?thesis
    using stop_correction_retries_then_alert [OF d f, of example_now] d
    by (simp add: Let_def s i example_prices make_trade_event_status)
qed

section \<open>Properties of the gateway\<close>

lemma safe_api_call_first_answer:
  "safe_api_call_body (answer 0) = Returned r e \<Longrightarrow> safe_api_call answer = Some (r, e)"
  by (simp add: safe_api_call_def numeral_3_eq_3)




end
